theory Spec2Isabelle
  imports Complex_Main
begin

section \<open>The synchronous socket backend of httpcore\<close>

text \<open>
  A shallow embedding of \<^verbatim>\<open>httpcore/_backends/sync.py\<close>: the class
  \<^verbatim>\<open>SyncSocketStream\<close> (read, write, close, is_connection_dropped) and
  \<^verbatim>\<open>SyncBackend.open_tcp_stream\<close>.

  The code is a thin layer of sequencing, locking and exception mapping around the
  calls of Python's \<^verbatim>\<open>socket\<close>, \<^verbatim>\<open>ssl\<close> and \<^verbatim>\<open>select\<close> modules. These
  modules are not part of the repository, so they are a parameter of the model (a record
  of functions over an opaque transport state); every call the code makes is written to
  a trace with its arguments and its result, so that what the code asked of the
  transport, and in which order, can be stated.
\<close>

subsection \<open>Values\<close>

text \<open>
  Python \<^verbatim>\<open>bytes\<close> are lists of 8-bit characters. A duration is the number passed
  to \<^verbatim>\<open>settimeout\<close>; the code never computes with it. A handle names a socket
  object, a lock identifier a \<^verbatim>\<open>threading.Lock\<close> object, a context an
  \<^verbatim>\<open>SSLContext\<close>.
\<close>

type_synonym bytes = "char list"
type_synonym duration = real
type_synonym handle = nat
type_synonym lock_id = nat
type_synonym ssl_ctx = nat

text \<open>The deadline dictionary \<^verbatim>\<open>Dict[str, Optional[float]]\<close>.\<close>

type_synonym deadlines = "string \<rightharpoonup> duration option"

text \<open>\<^verbatim>\<open>d.get(key)\<close>: the stored value, or \<^verbatim>\<open>None\<close> when the key is absent.\<close>

definition dict_get :: "deadlines \<Rightarrow> string \<Rightarrow> duration option" where
  "dict_get d k = (case d k of None \<Rightarrow> None | Some v \<Rightarrow> v)"

text \<open>
  \<^verbatim>\<open>data[n:]\<close> for a Python integer \<^verbatim>\<open>n\<close>: a negative start counts from the
  end and is clipped at the beginning of the sequence.
\<close>

definition py_slice_from :: "'a list \<Rightarrow> int \<Rightarrow> 'a list" where
  "py_slice_from xs n =
     (if 0 \<le> n then drop (nat n) xs else drop (nat (int (length xs) + n)) xs)"

subsection \<open>Exceptions\<close>

text \<open>
  The exceptions of the platform. \<^verbatim>\<open>socket.error\<close> is \<^verbatim>\<open>OSError\<close>;
  \<^verbatim>\<open>socket.timeout\<close> is one of its subclasses, as are the errors of name
  resolution and of the TLS handshake. The other constructors are the exceptions that
  are not \<^verbatim>\<open>OSError\<close>s.
\<close>

datatype os_failure =
    EBADF | ECONNRESET | EPIPE | ECONNREFUSED | GAIError | SSLError | Errno nat

datatype raw_exc =
    SocketTimeout
  | OSError os_failure
  | UnicodeDecodeError
  | ValueError
  | TypeError
  | OverflowError

text \<open>The seven exception classes imported from \<^verbatim>\<open>httpcore/_exceptions.py\<close>.\<close>

datatype kind =
    ConnectError | ConnectTimeout
  | ReadError | ReadTimeout
  | WriteError | WriteTimeout
  | CloseError

text \<open>
  What a caller can see raised: a platform exception as it is, or one of the seven
  classes, constructed with the platform exception it replaces as its argument.
\<close>

datatype py_exc = Raw raw_exc | Semantic kind raw_exc

text \<open>The two platform classes that are used as keys of an exception map.\<close>

datatype exc_class = socket_timeout | socket_error

fun isinstance :: "py_exc \<Rightarrow> exc_class \<Rightarrow> bool" where
  "isinstance (Raw SocketTimeout) socket_timeout = True"
| "isinstance (Raw SocketTimeout) socket_error = True"
| "isinstance (Raw (OSError _)) socket_error = True"
| "isinstance _ _ = False"

text \<open>
  \<^verbatim>\<open>hostname.decode("ascii")\<close>: the same characters when every byte is below 128,
  \<^verbatim>\<open>UnicodeDecodeError\<close> otherwise.
\<close>

definition decode_ascii :: "bytes \<Rightarrow> raw_exc + string" where
  "decode_ascii bs =
     (if list_all (\<lambda>c. of_char c < (128::nat)) bs then Inr bs else Inl UnicodeDecodeError)"

subsection \<open>The transport and the world\<close>

text \<open>
  The calls the code makes on the platform, as functions from the transport's state to
  a result (an exception or a value) and the next state:
  \<^verbatim>\<open>socket.socket(AF_INET, SOCK_STREAM)\<close>, \<^verbatim>\<open>sock.settimeout(t)\<close>,
  \<^verbatim>\<open>sock.connect((host, port))\<close>,
  \<^verbatim>\<open>ssl_context.wrap_socket(sock, server_hostname=host)\<close>, \<^verbatim>\<open>sock.recv(n)\<close>,
  \<^verbatim>\<open>sock.send(data)\<close>, \<^verbatim>\<open>sock.close()\<close> and
  \<^verbatim>\<open>select.select(rlist, [], [], t)\<close>, of which the code uses the first component of the
  result, the list of the handles ready for reading.
\<close>

record 's transport =
  t_socket :: "'s \<Rightarrow> (raw_exc + handle) \<times> 's"
  t_settimeout :: "handle \<Rightarrow> duration option \<Rightarrow> 's \<Rightarrow> (raw_exc + unit) \<times> 's"
  t_connect :: "handle \<Rightarrow> string \<Rightarrow> int \<Rightarrow> 's \<Rightarrow> (raw_exc + unit) \<times> 's"
  t_wrap_socket :: "ssl_ctx \<Rightarrow> handle \<Rightarrow> string \<Rightarrow> 's \<Rightarrow> (raw_exc + handle) \<times> 's"
  t_recv :: "handle \<Rightarrow> int \<Rightarrow> 's \<Rightarrow> (raw_exc + bytes) \<times> 's"
  t_send :: "handle \<Rightarrow> bytes \<Rightarrow> 's \<Rightarrow> (raw_exc + int) \<times> 's"
  t_close :: "handle \<Rightarrow> 's \<Rightarrow> (raw_exc + unit) \<times> 's"
  t_select :: "handle list \<Rightarrow> duration \<Rightarrow> 's \<Rightarrow> (raw_exc + handle list) \<times> 's"

text \<open>Every call is recorded with its arguments and what it gave back.\<close>

datatype event =
    Acquire lock_id
  | Release lock_id
  | NewLock lock_id
  | Socket "raw_exc + handle"
  | Settimeout handle "duration option" "raw_exc + unit"
  | Connect handle string int "raw_exc + unit"
  | WrapSocket ssl_ctx handle string "raw_exc + handle"
  | Recv handle int "raw_exc + bytes"
  | Send handle bytes "raw_exc + int"
  | Close handle "raw_exc + unit"
  | Select "handle list" duration "raw_exc + handle list"

text \<open>
  The world: the transport's state, the locks that are held at present, the next unused
  lock identifier, and the trace in chronological order.
\<close>

record 's world =
  env :: 's
  held :: "lock_id set"
  next_lock :: lock_id
  trace :: "event list"

definition log :: "event \<Rightarrow> 's world \<Rightarrow> 's world" where
  "log e w = w\<lparr>trace := trace w @ [e]\<rparr>"

text \<open>
  A block of code run in a world either raises or returns a value, and leaves a world;
  \<open>None\<close> stands for a block that never finishes.
\<close>

type_synonym ('a, 's) body = "'s world \<Rightarrow> ((py_exc + 'a) \<times> 's world) option"

text \<open>The platform calls as the code sees them: logged, a failure raised as it is.\<close>

definition lift :: "(raw_exc + 'a) \<Rightarrow> (py_exc + 'a)" where
  "lift r = (case r of Inl x \<Rightarrow> Inl (Raw x) | Inr v \<Rightarrow> Inr v)"

definition socket_socket :: "'s transport \<Rightarrow> 's world \<Rightarrow> (py_exc + handle) \<times> 's world" where
  "socket_socket T w =
     (case t_socket T (env w) of (r, s) \<Rightarrow> (lift r, log (Socket r) (w\<lparr>env := s\<rparr>)))"

definition sock_settimeout ::
  "'s transport \<Rightarrow> handle \<Rightarrow> duration option \<Rightarrow> 's world \<Rightarrow> (py_exc + unit) \<times> 's world" where
  "sock_settimeout T h t w =
     (case t_settimeout T h t (env w) of
        (r, s) \<Rightarrow> (lift r, log (Settimeout h t r) (w\<lparr>env := s\<rparr>)))"

definition sock_connect ::
  "'s transport \<Rightarrow> handle \<Rightarrow> string \<Rightarrow> int \<Rightarrow> 's world \<Rightarrow> (py_exc + unit) \<times> 's world" where
  "sock_connect T h host port w =
     (case t_connect T h host port (env w) of
        (r, s) \<Rightarrow> (lift r, log (Connect h host port r) (w\<lparr>env := s\<rparr>)))"

definition wrap_socket ::
  "'s transport \<Rightarrow> ssl_ctx \<Rightarrow> handle \<Rightarrow> string \<Rightarrow> 's world \<Rightarrow> (py_exc + handle) \<times> 's world" where
  "wrap_socket T c h host w =
     (case t_wrap_socket T c h host (env w) of
        (r, s) \<Rightarrow> (lift r, log (WrapSocket c h host r) (w\<lparr>env := s\<rparr>)))"

definition sock_recv ::
  "'s transport \<Rightarrow> handle \<Rightarrow> int \<Rightarrow> 's world \<Rightarrow> (py_exc + bytes) \<times> 's world" where
  "sock_recv T h n w =
     (case t_recv T h n (env w) of (r, s) \<Rightarrow> (lift r, log (Recv h n r) (w\<lparr>env := s\<rparr>)))"

definition sock_send ::
  "'s transport \<Rightarrow> handle \<Rightarrow> bytes \<Rightarrow> 's world \<Rightarrow> (py_exc + int) \<times> 's world" where
  "sock_send T h d w =
     (case t_send T h d (env w) of (r, s) \<Rightarrow> (lift r, log (Send h d r) (w\<lparr>env := s\<rparr>)))"

definition sock_close :: "'s transport \<Rightarrow> handle \<Rightarrow> 's world \<Rightarrow> (py_exc + unit) \<times> 's world" where
  "sock_close T h w =
     (case t_close T h (env w) of (r, s) \<Rightarrow> (lift r, log (Close h r) (w\<lparr>env := s\<rparr>)))"

definition select_select ::
  "'s transport \<Rightarrow> handle list \<Rightarrow> duration \<Rightarrow> 's world \<Rightarrow> (py_exc + handle list) \<times> 's world" where
  "select_select T hs t w =
     (case t_select T hs t (env w) of (r, s) \<Rightarrow> (lift r, log (Select hs t r) (w\<lparr>env := s\<rparr>)))"

subsection \<open>Locks\<close>

text \<open>
  \<^verbatim>\<open>threading.Lock()\<close> makes a new lock in the unlocked state. The lock is not
  re-entrant: \<^verbatim>\<open>with lock:\<close> on a lock that is held waits for its release by the
  holder, which the sequential model records as the outcome \<open>Blocked\<close>. Otherwise the
  lock is taken, the block runs, and the lock is released when the block is left,
  whether by returning or by raising.
\<close>

datatype 'a outcome = Returned 'a | Raised py_exc | Blocked

definition Lock :: "'s world \<Rightarrow> lock_id \<times> 's world" where
  "Lock w =
     (next_lock w,
      log (NewLock (next_lock w))
        (w\<lparr>next_lock := Suc (next_lock w), held := held w - {next_lock w}\<rparr>))"

definition acquire :: "lock_id \<Rightarrow> 's world \<Rightarrow> 's world" where
  "acquire l w = log (Acquire l) (w\<lparr>held := insert l (held w)\<rparr>)"

definition release :: "lock_id \<Rightarrow> 's world \<Rightarrow> 's world" where
  "release l w = log (Release l) (w\<lparr>held := held w - {l}\<rparr>)"

definition to_outcome :: "(py_exc + 'a) \<Rightarrow> 'a outcome" where
  "to_outcome r = (case r of Inl e \<Rightarrow> Raised e | Inr v \<Rightarrow> Returned v)"

definition with_lock ::
  "lock_id \<Rightarrow> ('a, 's) body \<Rightarrow> 's world \<Rightarrow> ('a outcome \<times> 's world) option" where
  "with_lock l blk w =
     (if l \<in> held w then Some (Blocked, w)
      else case blk (acquire l w) of
             None \<Rightarrow> None
           | Some (r, w1) \<Rightarrow> Some (to_outcome r, release l w1))"

subsection \<open>The exception map\<close>

text \<open>
  Modelled from the spec: \<^verbatim>\<open>map_exceptions\<close> of \<^verbatim>\<open>httpcore/_exceptions.py\<close>, which
  the source imports and which is not among the source files. The spec describes it as a
  scoped translation boundary around the transport calls (catch the low-level failure,
  remap, rethrow), driven by the map the call site passes: a failure that is an instance
  of a key is replaced by the class the key maps to, constructed from it. The keys are
  tried in the order in which the dictionary literal lists them, so that the timeout class
  is tried before its superclass. A block that returns is left alone, and an exception that
  is an instance of no key is not translated: it leaves the scope as it is.
\<close>

fun remap :: "(exc_class \<times> kind) list \<Rightarrow> py_exc \<Rightarrow> py_exc" where
  "remap [] e = e"
| "remap ((from_exc, to_exc) # m) e =
     (if isinstance e from_exc
      then (case e of Raw x \<Rightarrow> Semantic to_exc x | Semantic k x \<Rightarrow> Semantic k x)
      else remap m e)"

definition map_exceptions :: "(exc_class \<times> kind) list \<Rightarrow> ('a, 's) body \<Rightarrow> ('a, 's) body" where
  "map_exceptions m blk w =
     (case blk w of
        None \<Rightarrow> None
      | Some (Inl e, w1) \<Rightarrow> Some (Inl (remap m e), w1)
      | Some (Inr v, w1) \<Rightarrow> Some (Inr v, w1))"

subsection \<open>SyncSocketStream\<close>

record stream =
  sock :: handle
  read_lock :: lock_id
  write_lock :: lock_id

text \<open>\<^verbatim>\<open>SyncSocketStream.__init__\<close>: keeps the handle and makes the two locks.\<close>

definition SyncSocketStream :: "handle \<Rightarrow> 's world \<Rightarrow> stream \<times> 's world" where
  "SyncSocketStream s w =
     (case Lock w of (rl, w1) \<Rightarrow>
      case Lock w1 of (wl, w2) \<Rightarrow>
        (\<lparr>sock = s, read_lock = rl, write_lock = wl\<rparr>, w2))"

text \<open>\<^verbatim>\<open>SyncSocketStream.read\<close>.\<close>

definition read_body :: "'s transport \<Rightarrow> handle \<Rightarrow> int \<Rightarrow> duration option \<Rightarrow> (bytes, 's) body" where
  "read_body T h n read_timeout w =
     (case sock_settimeout T h read_timeout w of
        (Inl e, w1) \<Rightarrow> Some (Inl e, w1)
      | (Inr _, w1) \<Rightarrow> Some (sock_recv T h n w1))"

definition read ::
  "'s transport \<Rightarrow> stream \<Rightarrow> int \<Rightarrow> deadlines \<Rightarrow> 's world \<Rightarrow> (bytes outcome \<times> 's world) option" where
  "read T self n timeout w =
     (let read_timeout = dict_get timeout ''read'';
          exc_map = [(socket_timeout, ReadTimeout), (socket_error, ReadError)]
      in with_lock (read_lock self)
           (map_exceptions exc_map (read_body T (sock self) n read_timeout)) w)"

text \<open>
  \<^verbatim>\<open>SyncSocketStream.write\<close>. The loop \<^verbatim>\<open>while data:\<close> runs as long as the
  transport accepts less than what is left, which may be for ever.
\<close>

partial_function (option) send_loop ::
  "'s transport \<Rightarrow> handle \<Rightarrow> duration option \<Rightarrow> bytes \<Rightarrow> 's world
     \<Rightarrow> ((py_exc + unit) \<times> 's world) option" where
  "send_loop T h write_timeout data w =
     (if data = [] then Some (Inr (), w)
      else case sock_settimeout T h write_timeout w of
             (Inl e, w1) \<Rightarrow> Some (Inl e, w1)
           | (Inr _, w1) \<Rightarrow>
               (case sock_send T h data w1 of
                  (Inl e, w2) \<Rightarrow> Some (Inl e, w2)
                | (Inr n, w2) \<Rightarrow> send_loop T h write_timeout (py_slice_from data n) w2))"

declare send_loop.simps [code]

definition write_data ::
  "'s transport \<Rightarrow> stream \<Rightarrow> bytes \<Rightarrow> deadlines \<Rightarrow> 's world \<Rightarrow> (unit outcome \<times> 's world) option" where
  "write_data T self data timeout w =
     (let write_timeout = dict_get timeout ''write'';
          exc_map = [(socket_timeout, WriteTimeout), (socket_error, WriteError)]
      in with_lock (write_lock self)
           (map_exceptions exc_map (send_loop T (sock self) write_timeout data)) w)"

text \<open>\<^verbatim>\<open>SyncSocketStream.close\<close>.\<close>

definition close :: "'s transport \<Rightarrow> stream \<Rightarrow> 's world \<Rightarrow> (unit outcome \<times> 's world) option" where
  "close T self w =
     with_lock (write_lock self)
       (map_exceptions [(socket_error, CloseError)] (\<lambda>w1. Some (sock_close T (sock self) w1))) w"

text \<open>
  \<^verbatim>\<open>SyncSocketStream.is_connection_dropped\<close>: one call of \<^verbatim>\<open>select\<close> with the
  timeout 0, outside of any lock and of any exception map; \<^verbatim>\<open>bool(rready)\<close> is true
  for a list that is not empty.
\<close>

definition is_connection_dropped ::
  "'s transport \<Rightarrow> stream \<Rightarrow> 's world \<Rightarrow> (py_exc + bool) \<times> 's world" where
  "is_connection_dropped T self w =
     (case select_select T [sock self] 0 w of
        (Inl e, w1) \<Rightarrow> (Inl e, w1)
      | (Inr rready, w1) \<Rightarrow> (Inr (rready \<noteq> []), w1))"

subsection \<open>SyncBackend\<close>

text \<open>
  \<^verbatim>\<open>SyncBackend.open_tcp_stream\<close>. The host name is decoded where the source decodes
  it: as the argument of \<^verbatim>\<open>connect\<close>, after the socket was made and its timeout set,
  and once more as the argument of \<^verbatim>\<open>wrap_socket\<close>.
\<close>

definition open_body ::
  "'s transport \<Rightarrow> bytes \<Rightarrow> int \<Rightarrow> ssl_ctx option \<Rightarrow> duration option \<Rightarrow> (stream, 's) body" where
  "open_body T hostname port ssl_context connect_timeout w =
     (case socket_socket T w of
        (Inl e, w1) \<Rightarrow> Some (Inl e, w1)
      | (Inr s, w1) \<Rightarrow>
     (case sock_settimeout T s connect_timeout w1 of
        (Inl e, w2) \<Rightarrow> Some (Inl e, w2)
      | (Inr _, w2) \<Rightarrow>
     (case decode_ascii hostname of
        Inl x \<Rightarrow> Some (Inl (Raw x), w2)
      | Inr host \<Rightarrow>
     (case sock_connect T s host port w2 of
        (Inl e, w3) \<Rightarrow> Some (Inl e, w3)
      | (Inr _, w3) \<Rightarrow>
     (case ssl_context of
        None \<Rightarrow> (case SyncSocketStream s w3 of (st, w5) \<Rightarrow> Some (Inr st, w5))
      | Some c \<Rightarrow>
     (case decode_ascii hostname of
        Inl x \<Rightarrow> Some (Inl (Raw x), w3)
      | Inr server_hostname \<Rightarrow>
     (case wrap_socket T c s server_hostname w3 of
        (Inl e, w4) \<Rightarrow> Some (Inl e, w4)
      | (Inr s', w4) \<Rightarrow>
          (case SyncSocketStream s' w4 of (st, w5) \<Rightarrow> Some (Inr st, w5)))))))))"

definition open_tcp_stream ::
  "'s transport \<Rightarrow> bytes \<Rightarrow> int \<Rightarrow> ssl_ctx option \<Rightarrow> deadlines \<Rightarrow> (stream, 's) body" where
  "open_tcp_stream T hostname port ssl_context timeout w =
     (let connect_timeout = dict_get timeout ''connect'';
          exc_map = [(socket_timeout, ConnectTimeout), (socket_error, ConnectError)]
      in map_exceptions exc_map (open_body T hostname port ssl_context connect_timeout) w)"

subsection \<open>Reading a trace\<close>

text \<open>The events a call added to the trace of the world it started in.\<close>

definition new_events :: "'s world \<Rightarrow> 's world \<Rightarrow> event list" where
  "new_events w w' = drop (length (trace w)) (trace w')"

text \<open>
  The bytes the transport took on a handle: for each \<^verbatim>\<open>send\<close> that returned a count,
  that many bytes from the front of the buffer it was given, in the order of the calls.
\<close>

fun accepted :: "handle \<Rightarrow> event list \<Rightarrow> bytes" where
  "accepted h [] = []"
| "accepted h (Send h' d (Inr n) # evs) =
     (if h' = h then take (nat n) d @ accepted h evs else accepted h evs)"
| "accepted h (_ # evs) = accepted h evs"

text \<open>
  Replaying the sends of a trace against a buffer: every \<^verbatim>\<open>send\<close> on the handle has
  to offer exactly what is left of the buffer, and takes the count it returned off its
  front. The result is what is left at the end, or \<open>None\<close> when some send offered
  something else.
\<close>

fun remaining :: "handle \<Rightarrow> event list \<Rightarrow> bytes \<Rightarrow> bytes option" where
  "remaining h [] rest = Some rest"
| "remaining h (Send h' d r # evs) rest =
     (if h' \<noteq> h then remaining h evs rest
      else if d \<noteq> rest then None
      else (case r of
              Inl _ \<Rightarrow> remaining h evs rest
            | Inr n \<Rightarrow> remaining h evs (drop (nat n) rest)))"
| "remaining h (_ # evs) rest = remaining h evs rest"

text \<open>
  The shape of the trace of the send loop: each \<^verbatim>\<open>send\<close> on the handle comes right
  after a \<^verbatim>\<open>settimeout\<close> of the given value on the same handle, and nothing else
  happens; a last \<^verbatim>\<open>settimeout\<close> stands alone only when it raised.
\<close>

fun chunked :: "handle \<Rightarrow> duration option \<Rightarrow> event list \<Rightarrow> bool" where
  "chunked h t [] = True"
| "chunked h t [Settimeout h' t' r] = (h' = h \<and> t' = t \<and> isl r)"
| "chunked h t (Settimeout h' t' r # Send h'' d r' # evs) =
     (h' = h \<and> t' = t \<and> \<not> isl r \<and> h'' = h \<and> (isl r' \<longrightarrow> evs = []) \<and> chunked h t evs)"
| "chunked h t _ = False"


text \<open>The host names a trace passed to \<^verbatim>\<open>connect\<close> and to \<^verbatim>\<open>wrap_socket\<close>.\<close>

fun host_args :: "event list \<Rightarrow> string list" where
  "host_args [] = []"
| "host_args (Connect _ host _ _ # evs) = host # host_args evs"
| "host_args (WrapSocket _ _ host _ # evs) = host # host_args evs"
| "host_args (_ # evs) = host_args evs"

text \<open>Events of the locks, and events that are calls of the platform on one handle.\<close>

fun is_lock_event :: "event \<Rightarrow> bool" where
  "is_lock_event (Acquire _) = True"
| "is_lock_event (Release _) = True"
| "is_lock_event (NewLock _) = True"
| "is_lock_event _ = False"

fun on_handle :: "handle \<Rightarrow> event \<Rightarrow> bool" where
  "on_handle h (Settimeout h' _ _) = (h' = h)"
| "on_handle h (Recv h' _ _) = (h' = h)"
| "on_handle h (Send h' _ _) = (h' = h)"
| "on_handle h (Close h' _) = (h' = h)"
| "on_handle h _ = False"

fun is_close :: "event \<Rightarrow> bool" where
  "is_close (Close _ _) = True"
| "is_close _ = False"

text \<open>
  A piece of trace that is one critical section of a lock: it starts by taking the lock,
  ends by releasing it, and in between there are only calls of the platform on the handle.
\<close>

definition guarded :: "lock_id \<Rightarrow> handle \<Rightarrow> event list \<Rightarrow> bool" where
  "guarded l h evs =
     (case evs of
        [] \<Rightarrow> False
      | e # rest \<Rightarrow>
          e = Acquire l \<and> rest \<noteq> [] \<and> last rest = Release l \<and>
          list_all (on_handle h) (butlast rest))"

text \<open>The exceptions the platform raised in a trace, in order.\<close>

fun failed :: "event \<Rightarrow> raw_exc list" where
  "failed (Socket (Inl x)) = [x]"
| "failed (Settimeout _ _ (Inl x)) = [x]"
| "failed (Connect _ _ _ (Inl x)) = [x]"
| "failed (WrapSocket _ _ _ (Inl x)) = [x]"
| "failed (Recv _ _ (Inl x)) = [x]"
| "failed (Send _ _ (Inl x)) = [x]"
| "failed (Close _ (Inl x)) = [x]"
| "failed (Select _ _ (Inl x)) = [x]"
| "failed _ = []"

definition failures :: "event list \<Rightarrow> raw_exc list" where
  "failures evs = concat (map failed evs)"

text \<open>
  The exception maps of the source, read phase by phase. Each of \<^verbatim>\<open>read\<close>,
  \<^verbatim>\<open>write\<close> and \<^verbatim>\<open>open_tcp_stream\<close> passes a map with two keys: the class
  \<^verbatim>\<open>socket.timeout\<close>, which goes to the phase's timeout kind, and the class
  \<^verbatim>\<open>socket.error\<close>, which goes to the phase's generic kind; \<^verbatim>\<open>close\<close> passes the
  second key only. What the maps test is the class of the exception, not whether a deadline
  has elapsed: \<open>SocketTimeout\<close> is the one exception of the class \<^verbatim>\<open>socket.timeout\<close>,
  and every other \<^verbatim>\<open>OSError\<close> (the \<^verbatim>\<open>BlockingIOError\<close> of a socket with the
  deadline 0 among them) is of the class \<^verbatim>\<open>socket.error\<close> only.
\<close>

datatype phase = Connecting | Reading | Writing | Closing

definition is_socket_error :: "raw_exc \<Rightarrow> bool" where
  "is_socket_error x = isinstance (Raw x) socket_error"

fun kind_for_class :: "phase \<Rightarrow> raw_exc \<Rightarrow> kind" where
  "kind_for_class Connecting x = (if x = SocketTimeout then ConnectTimeout else ConnectError)"
| "kind_for_class Reading x = (if x = SocketTimeout then ReadTimeout else ReadError)"
| "kind_for_class Writing x = (if x = SocketTimeout then WriteTimeout else WriteError)"
| "kind_for_class Closing x = CloseError"

text \<open>
  What a platform exception turns into when it crosses the map of a phase: an instance of
  \<^verbatim>\<open>socket.error\<close> becomes the kind its class has in that phase, made from it; an
  exception of any other class (\<^verbatim>\<open>ValueError\<close>, \<^verbatim>\<open>OverflowError\<close>,
  \<^verbatim>\<open>UnicodeDecodeError\<close>, \<^verbatim>\<open>TypeError\<close>) matches no key and stays as it is.
\<close>

definition surfaced :: "phase \<Rightarrow> raw_exc \<Rightarrow> py_exc" where
  "surfaced p x = (if is_socket_error x then Semantic (kind_for_class p x) x else Raw x)"

text \<open>
  The same as a test on what a caller sees raised: one of the kinds only with an instance of
  \<^verbatim>\<open>socket.error\<close> inside and under the kind of its class, a platform exception as it
  is only when it is not an instance of \<^verbatim>\<open>socket.error\<close>.
\<close>

fun mapped_or_foreign :: "phase \<Rightarrow> py_exc \<Rightarrow> bool" where
  "mapped_or_foreign p (Semantic k x) = (is_socket_error x \<and> k = kind_for_class p x)"
| "mapped_or_foreign p (Raw x) = (\<not> is_socket_error x)"

text \<open>
  What the code relies on from the platform. A count returned by \<^verbatim>\<open>send\<close> is not
  negative. A handle that a completed \<^verbatim>\<open>close\<close> has released is dead, and
  \<^verbatim>\<open>settimeout\<close> on a dead handle raises an \<^verbatim>\<open>OSError\<close> and leaves it dead.
\<close>

definition send_nonneg :: "'s transport \<Rightarrow> bool" where
  "send_nonneg T = (\<forall>h d s n s'. t_send T h d s = (Inr n, s') \<longrightarrow> 0 \<le> n)"


subsection \<open>A transport to run the code on\<close>

text \<open>
  A small deterministic transport, for running the operations on concrete inputs. It
  follows what CPython's sockets do where the code depends on it: a closed socket has the
  descriptor -1, so that \<^verbatim>\<open>settimeout\<close>, \<^verbatim>\<open>connect\<close>, \<^verbatim>\<open>recv\<close> and
  \<^verbatim>\<open>send\<close> on it raise \<^verbatim>\<open>OSError\<close> (bad file descriptor) and \<^verbatim>\<open>select\<close> raises
  \<^verbatim>\<open>ValueError\<close>; \<^verbatim>\<open>close\<close> on it does nothing; \<^verbatim>\<open>wrap_socket\<close> gives a new
  socket object that takes the connection over. One \<^verbatim>\<open>send\<close> takes at most
  \<open>sim_chunk\<close> bytes, \<^verbatim>\<open>recv\<close> gives what is in the inbox, and \<open>sim_refuse\<close> makes
  \<^verbatim>\<open>connect\<close> fail as a refused connection does.
\<close>

record sim =
  sim_next :: handle
  sim_open :: "handle set"
  sim_ready :: "handle set"
  sim_inbox :: bytes
  sim_chunk :: nat
  sim_refuse :: bool

definition sim_socket :: "sim \<Rightarrow> (raw_exc + handle) \<times> sim" where
  "sim_socket s =
     (Inr (sim_next s),
      s\<lparr>sim_next := Suc (sim_next s), sim_open := insert (sim_next s) (sim_open s)\<rparr>)"

definition sim_settimeout :: "handle \<Rightarrow> duration option \<Rightarrow> sim \<Rightarrow> (raw_exc + unit) \<times> sim" where
  "sim_settimeout h t s = (if h \<in> sim_open s then Inr () else Inl (OSError EBADF), s)"

definition sim_connect :: "handle \<Rightarrow> string \<Rightarrow> int \<Rightarrow> sim \<Rightarrow> (raw_exc + unit) \<times> sim" where
  "sim_connect h host port s =
     (if h \<notin> sim_open s then Inl (OSError EBADF)
      else if sim_refuse s then Inl (OSError ECONNREFUSED)
      else Inr (), s)"

definition sim_wrap_socket ::
  "ssl_ctx \<Rightarrow> handle \<Rightarrow> string \<Rightarrow> sim \<Rightarrow> (raw_exc + handle) \<times> sim" where
  "sim_wrap_socket c h host s =
     (if h \<notin> sim_open s then (Inl (OSError EBADF), s)
      else (Inr (sim_next s),
            s\<lparr>sim_next := Suc (sim_next s),
              sim_open := insert (sim_next s) (sim_open s - {h})\<rparr>))"

definition sim_recv :: "handle \<Rightarrow> int \<Rightarrow> sim \<Rightarrow> (raw_exc + bytes) \<times> sim" where
  "sim_recv h n s =
     (if n < 0 then (Inl ValueError, s)
      else if h \<notin> sim_open s then (Inl (OSError EBADF), s)
      else (Inr (take (nat n) (sim_inbox s)), s\<lparr>sim_inbox := drop (nat n) (sim_inbox s)\<rparr>))"

definition sim_send :: "handle \<Rightarrow> bytes \<Rightarrow> sim \<Rightarrow> (raw_exc + int) \<times> sim" where
  "sim_send h d s =
     (if h \<notin> sim_open s then Inl (OSError EBADF)
      else Inr (int (min (sim_chunk s) (length d))), s)"

definition sim_close :: "handle \<Rightarrow> sim \<Rightarrow> (raw_exc + unit) \<times> sim" where
  "sim_close h s = (Inr (), s\<lparr>sim_open := sim_open s - {h}\<rparr>)"

definition sim_select :: "handle list \<Rightarrow> duration \<Rightarrow> sim \<Rightarrow> (raw_exc + handle list) \<times> sim" where
  "sim_select hs t s =
     (if list_all (\<lambda>h. h \<in> sim_open s) hs
      then Inr (filter (\<lambda>h. h \<in> sim_ready s) hs)
      else Inl ValueError, s)"

definition sim_transport :: "sim transport" where
  "sim_transport =
     \<lparr>t_socket = sim_socket, t_settimeout = sim_settimeout, t_connect = sim_connect,
      t_wrap_socket = sim_wrap_socket, t_recv = sim_recv, t_send = sim_send,
      t_close = sim_close, t_select = sim_select\<rparr>"

text \<open>
  A world with no socket yet, and one with the socket 0 open, connected and wrapped in a
  stream whose locks are 0 and 1.
\<close>

definition sim0 :: sim where
  "sim0 = \<lparr>sim_next = 0, sim_open = {}, sim_ready = {}, sim_inbox = [],
           sim_chunk = 2, sim_refuse = False\<rparr>"

definition world0 :: "sim world" where
  "world0 = \<lparr>env = sim0, held = {}, next_lock = 0, trace = []\<rparr>"

definition sim1 :: sim where
  "sim1 = \<lparr>sim_next = 1, sim_open = {0}, sim_ready = {}, sim_inbox = ''pong'',
           sim_chunk = 2, sim_refuse = False\<rparr>"

definition world1 :: "sim world" where
  "world1 = \<lparr>env = sim1, held = {}, next_lock = 2, trace = []\<rparr>"

definition stream1 :: stream where
  "stream1 = \<lparr>sock = 0, read_lock = 0, write_lock = 1\<rparr>"

text \<open>The world that closing \<open>stream1\<close> in \<open>world1\<close> leaves: the socket 0 is closed.\<close>

definition closed1 :: "sim world" where
  "closed1 = \<lparr>env = sim1\<lparr>sim_open := {}\<rparr>, held = {}, next_lock = 2,
              trace = [Acquire 1, Close 0 (Inr ()), Release 1]\<rparr>"

text \<open>
  Variations of the two worlds: a peer that refuses the connection, the write lock of
  \<open>stream1\<close> held by some other thread, and its read lock held by some other thread.
\<close>

definition refusing0 :: "sim world" where
  "refusing0 = \<lparr>env = sim0\<lparr>sim_refuse := True\<rparr>, held = {}, next_lock = 0, trace = []\<rparr>"

definition writer_busy1 :: "sim world" where
  "writer_busy1 = \<lparr>env = sim1, held = {1}, next_lock = 2, trace = []\<rparr>"

definition reader_busy1 :: "sim world" where
  "reader_busy1 = \<lparr>env = sim1, held = {0}, next_lock = 2, trace = []\<rparr>"

text \<open>
  The ways \<open>open_body\<close> can end, each with the whole trace it leaves: the socket cannot be
  made; its deadline cannot be set; the host name does not decode; the connection fails;
  the connection succeeds and no context was given; the handshake fails; the handshake
  succeeds. A stream and its two locks exist in the two successful cases only.
\<close>

definition open_post ::
  "bytes \<Rightarrow> int \<Rightarrow> ssl_ctx option \<Rightarrow> duration option \<Rightarrow> 's world
     \<Rightarrow> (py_exc + stream) \<times> 's world \<Rightarrow> bool" where
  "open_post hostname port ssl_context t w y =
     (case y of (r, w') \<Rightarrow>
        (\<exists>evs. trace w' = trace w @ evs \<and>
           ((\<exists>x. evs = [Socket (Inl x)] \<and> r = Inl (Raw x) \<and>
                 held w' = held w \<and> next_lock w' = next_lock w) \<or>
            (\<exists>h x. evs = [Socket (Inr h), Settimeout h t (Inl x)] \<and> r = Inl (Raw x) \<and>
                 held w' = held w \<and> next_lock w' = next_lock w) \<or>
            (\<exists>h. evs = [Socket (Inr h), Settimeout h t (Inr ())] \<and>
                 decode_ascii hostname = Inl UnicodeDecodeError \<and>
                 r = Inl (Raw UnicodeDecodeError) \<and>
                 held w' = held w \<and> next_lock w' = next_lock w) \<or>
            (\<exists>h host x. evs = [Socket (Inr h), Settimeout h t (Inr ()),
                                Connect h host port (Inl x)] \<and>
                 decode_ascii hostname = Inr host \<and> r = Inl (Raw x) \<and>
                 held w' = held w \<and> next_lock w' = next_lock w) \<or>
            (\<exists>h host. evs = [Socket (Inr h), Settimeout h t (Inr ()),
                              Connect h host port (Inr ()),
                              NewLock (next_lock w), NewLock (Suc (next_lock w))] \<and>
                 decode_ascii hostname = Inr host \<and> ssl_context = None \<and>
                 r = Inr \<lparr>sock = h, read_lock = next_lock w,
                          write_lock = Suc (next_lock w)\<rparr> \<and>
                 held w' = held w - {next_lock w, Suc (next_lock w)} \<and>
                 next_lock w' = Suc (Suc (next_lock w))) \<or>
            (\<exists>h host c x. evs = [Socket (Inr h), Settimeout h t (Inr ()),
                              Connect h host port (Inr ()),
                              WrapSocket c h host (Inl x)] \<and>
                 decode_ascii hostname = Inr host \<and> ssl_context = Some c \<and>
                 r = Inl (Raw x) \<and>
                 held w' = held w \<and> next_lock w' = next_lock w) \<or>
            (\<exists>h host c h'. evs = [Socket (Inr h), Settimeout h t (Inr ()),
                              Connect h host port (Inr ()),
                              WrapSocket c h host (Inr h'),
                              NewLock (next_lock w), NewLock (Suc (next_lock w))] \<and>
                 decode_ascii hostname = Inr host \<and> ssl_context = Some c \<and>
                 r = Inr \<lparr>sock = h', read_lock = next_lock w,
                          write_lock = Suc (next_lock w)\<rparr> \<and>
                 held w' = held w - {next_lock w, Suc (next_lock w)} \<and>
                 next_lock w' = Suc (Suc (next_lock w))))))"

text \<open>
  A deadline dictionary with a connect deadline of five seconds, a null read deadline and
  no entry for writing.
\<close>

definition deadlines1 :: deadlines where
  "deadlines1 = [''connect'' \<mapsto> Some 5, ''read'' \<mapsto> None]"

text \<open>
  The same transport with a peer that has gone away: connecting and receiving run into the
  deadline, sending finds the pipe broken, and closing reports an input/output error.
\<close>

definition faulty :: "sim transport" where
  "faulty = sim_transport
     \<lparr>t_connect := (\<lambda>h host port s. (Inl SocketTimeout, s)),
      t_recv := (\<lambda>h n s. (Inl SocketTimeout, s)),
      t_send := (\<lambda>h d s. (Inl (OSError EPIPE), s)),
      t_close := (\<lambda>h s. (Inl (OSError (Errno 5)), s))\<rparr>"

text \<open>The world that a refused connection attempt leaves when started in \<open>refusing0\<close>.\<close>

definition refused0 :: "sim world" where
  "refused0 =
     \<lparr>env = sim0\<lparr>sim_next := 1, sim_open := {0}, sim_refuse := True\<rparr>,
      held = {}, next_lock = 0,
      trace = [Socket (Inr 0), Settimeout 0 None (Inr ()),
               Connect 0 ''localhost'' 80 (Inl (OSError ECONNREFUSED))]\<rparr>"

text \<open>
  A transport with one socket and a peer whose answer is still on its way. Its state is the
  deadline last set on the socket, which decides what \<^verbatim>\<open>recv\<close> does, as on the
  platform: without a deadline the call waits for the answer and returns it; with a deadline
  above 0 the deadline elapses first and the call raises \<^verbatim>\<open>socket.timeout\<close>; the
  deadline 0 makes the socket non-blocking, and the call raises \<^verbatim>\<open>BlockingIOError\<close>
  at once, an \<^verbatim>\<open>OSError\<close> with the error number 11 that is not a
  \<^verbatim>\<open>socket.timeout\<close>. A negative deadline is refused with \<^verbatim>\<open>ValueError\<close>.
\<close>

definition slow_peer :: "(duration option) transport" where
  "slow_peer =
     \<lparr>t_socket = (\<lambda>s. (Inr 0, s)),
      t_settimeout = (\<lambda>h t s. case t of
                                 None \<Rightarrow> (Inr (), None)
                               | Some d \<Rightarrow> if d < 0 then (Inl ValueError, s)
                                           else (Inr (), Some d)),
      t_connect = (\<lambda>h host port s. (Inr (), s)),
      t_wrap_socket = (\<lambda>c h host s. (Inr h, s)),
      t_recv = (\<lambda>h n s. (if n < 0 then Inl ValueError
                           else case s of
                                  None \<Rightarrow> Inr (take (nat n) ''late'')
                                | Some d \<Rightarrow> if d = 0 then Inl (OSError (Errno 11))
                                            else Inl SocketTimeout, s)),
      t_send = (\<lambda>h d s. (Inr (int (length d)), s)),
      t_close = (\<lambda>h s. (Inr (), s)),
      t_select = (\<lambda>hs t s. (Inr [], s))\<rparr>"

definition slow_world :: "(duration option) world" where
  "slow_world = \<lparr>env = None, held = {}, next_lock = 2, trace = []\<rparr>"

text \<open>A deadline dictionary whose read deadline is 0.\<close>

definition deadlines0 :: deadlines where
  "deadlines0 = [''read'' \<mapsto> Some 0]"

text \<open>
  What one run of the send loop leaves behind, whatever way it ends: the locks untouched,
  and a piece of trace in which every send follows a settimeout, on the same handle; the
  only failure of the platform in it, if any, is the exception the loop raised; and when
  the loop returns, the buffer was taken whole.
\<close>

definition loop_post ::
  "'s transport \<Rightarrow> handle \<Rightarrow> duration option \<Rightarrow> bytes \<Rightarrow> 's world
     \<Rightarrow> (py_exc + unit) \<times> 's world \<Rightarrow> bool" where
  "loop_post T h t data w y =
     (case y of (r, w') \<Rightarrow>
        held w' = held w \<and> next_lock w' = next_lock w \<and>
        (\<exists>evs. trace w' = trace w @ evs \<and> chunked h t evs \<and> list_all (on_handle h) evs \<and>
           map Raw (failures evs) = (case r of Inl e \<Rightarrow> [e] | Inr _ \<Rightarrow> []) \<and>
           (case r of
              Inl e \<Rightarrow> True
            | Inr _ \<Rightarrow> send_nonneg T \<longrightarrow>
                        accepted h evs = data \<and> remaining h evs data = Some [])))"

section \<open>Properties\<close>

subsection \<open>Platform calls\<close>

lemma lift_Inr: "lift x = Inr v \<longleftrightarrow> x = Inr v"
  by (cases x) (auto simp: lift_def)

lemma lift_Inl: "lift x = Inl e \<longleftrightarrow> (\<exists>y. x = Inl y \<and> e = Raw y)"
  by (cases x) (auto simp: lift_def)

lemma failures_simps:
  "failures [] = []"
  "failures (e # evs) = failed e @ failures evs"
  "failures (xs @ ys) = failures xs @ failures ys"
  by (simp_all add: failures_def)

lemma new_events_append: "trace w' = trace w @ evs \<Longrightarrow> new_events w w' = evs"
  by (simp add: new_events_def)

lemma socket_socket_world:
  "socket_socket T w = (r, w') \<Longrightarrow>
     held w' = held w \<and> next_lock w' = next_lock w \<and>
     (\<exists>x. trace w' = trace w @ [Socket x] \<and> lift x = r \<and> t_socket T (env w) = (x, env w'))"
  by (auto simp: socket_socket_def log_def split: prod.splits)

lemma sock_settimeout_world:
  "sock_settimeout T h t w = (r, w') \<Longrightarrow>
     held w' = held w \<and> next_lock w' = next_lock w \<and>
     (\<exists>x. trace w' = trace w @ [Settimeout h t x] \<and> lift x = r \<and>
          t_settimeout T h t (env w) = (x, env w'))"
  by (auto simp: sock_settimeout_def log_def split: prod.splits)

lemma sock_connect_world:
  "sock_connect T h host port w = (r, w') \<Longrightarrow>
     held w' = held w \<and> next_lock w' = next_lock w \<and>
     (\<exists>x. trace w' = trace w @ [Connect h host port x] \<and> lift x = r \<and>
          t_connect T h host port (env w) = (x, env w'))"
  by (auto simp: sock_connect_def log_def split: prod.splits)

lemma wrap_socket_world:
  "wrap_socket T c h host w = (r, w') \<Longrightarrow>
     held w' = held w \<and> next_lock w' = next_lock w \<and>
     (\<exists>x. trace w' = trace w @ [WrapSocket c h host x] \<and> lift x = r \<and>
          t_wrap_socket T c h host (env w) = (x, env w'))"
  by (auto simp: wrap_socket_def log_def split: prod.splits)

lemma sock_recv_world:
  "sock_recv T h n w = (r, w') \<Longrightarrow>
     held w' = held w \<and> next_lock w' = next_lock w \<and>
     (\<exists>x. trace w' = trace w @ [Recv h n x] \<and> lift x = r \<and>
          t_recv T h n (env w) = (x, env w'))"
  by (auto simp: sock_recv_def log_def split: prod.splits)

lemma sock_send_world:
  "sock_send T h d w = (r, w') \<Longrightarrow>
     held w' = held w \<and> next_lock w' = next_lock w \<and>
     (\<exists>x. trace w' = trace w @ [Send h d x] \<and> lift x = r \<and>
          t_send T h d (env w) = (x, env w'))"
  by (auto simp: sock_send_def log_def split: prod.splits)

lemma sock_close_world:
  "sock_close T h w = (r, w') \<Longrightarrow>
     held w' = held w \<and> next_lock w' = next_lock w \<and>
     (\<exists>x. trace w' = trace w @ [Close h x] \<and> lift x = r \<and>
          t_close T h (env w) = (x, env w'))"
  by (auto simp: sock_close_def log_def split: prod.splits)

lemma select_select_world:
  "select_select T hs t w = (r, w') \<Longrightarrow>
     held w' = held w \<and> next_lock w' = next_lock w \<and>
     (\<exists>x. trace w' = trace w @ [Select hs t x] \<and> lift x = r \<and>
          t_select T hs t (env w) = (x, env w'))"
  by (auto simp: select_select_def log_def split: prod.splits)

subsection \<open>Locks and exception maps\<close>

lemma with_lock_held: "l \<in> held w \<Longrightarrow> with_lock l blk w = Some (Blocked, w)"
  by (simp add: with_lock_def)

lemma with_lock_free:
  "l \<notin> held w \<Longrightarrow>
     with_lock l blk w =
       (case blk (acquire l w) of
          None \<Rightarrow> None
        | Some (r, w1) \<Rightarrow> Some (to_outcome r, release l w1))"
  by (simp add: with_lock_def)

lemma acquire_fields:
  "held (acquire l w) = insert l (held w)" "next_lock (acquire l w) = next_lock w"
  "trace (acquire l w) = trace w @ [Acquire l]" "env (acquire l w) = env w"
  by (simp_all add: acquire_def log_def)

lemma release_fields:
  "held (release l w) = held w - {l}" "next_lock (release l w) = next_lock w"
  "trace (release l w) = trace w @ [Release l]" "env (release l w) = env w"
  by (simp_all add: release_def log_def)

lemma map_exceptions_Some:
  "map_exceptions m blk w = Some (r, w') \<longleftrightarrow>
     (\<exists>r0. blk w = Some (r0, w') \<and>
           r = (case r0 of Inl e \<Rightarrow> Inl (remap m e) | Inr v \<Rightarrow> Inr v))"
  by (auto simp: map_exceptions_def split: option.splits sum.splits)

lemma map_exceptions_None: "map_exceptions m blk w = None \<longleftrightarrow> blk w = None"
  by (auto simp: map_exceptions_def split: option.splits sum.splits)

text \<open>What a two-entry map (timeout first, then the generic class) and the one-entry map do.\<close>

lemma remap_two:
  "remap [(socket_timeout, kt), (socket_error, ke)] (Raw x) =
     (if x = SocketTimeout then Semantic kt x
      else if is_socket_error x then Semantic ke x else Raw x)"
  by (cases x) (simp_all add: is_socket_error_def)

lemma remap_one:
  "remap [(socket_error, ke)] (Raw x) =
     (if is_socket_error x then Semantic ke x else Raw x)"
  by (cases x) (simp_all add: is_socket_error_def)

lemma remap_not_socket: "\<not> isinstance (remap [(socket_timeout, kt), (socket_error, ke)] (Raw x)) c"
  by (cases x; cases c) simp_all

lemma remap_one_not_socket: "\<not> isinstance (remap [(socket_error, ke)] (Raw x)) socket_error"
  by (cases x) simp_all


subsection \<open>The send loop\<close>

lemma send_loop_post:
  assumes "send_loop T h t data w = Some y"
  shows "loop_post T h t data w y"
  using assms
proof (induct rule: send_loop.raw_induct[rotated 1, consumes 1, case_names step])
  case (step f T h t data w y)
  show ?case
  proof (cases "data = []")
    case True
    with step(2) show ?thesis by (auto simp: loop_post_def failures_simps)
  next
    case False
    obtain r1 w1 where st: "sock_settimeout T h t w = (r1, w1)"
      by (cases "sock_settimeout T h t w")
    note w1 = sock_settimeout_world[OF st]
    show ?thesis
    proof (cases r1)
      case (Inl e)
      with step(2) False st have y: "y = (Inl e, w1)" by simp
      from w1 Inl show ?thesis unfolding y loop_post_def
        by (auto simp: lift_Inl failures_simps)
    next
      case (Inr u)
      obtain r2 w2 where sd: "sock_send T h data w1 = (r2, w2)"
        by (cases "sock_send T h data w1")
      note w2 = sock_send_world[OF sd]
      from w1 Inr have x1: "trace w1 = trace w @ [Settimeout h t (Inr u)]"
        by (auto simp: lift_Inr)
      show ?thesis
      proof (cases r2)
        case (Inl e)
        with step(2) False st sd Inr have y: "y = (Inl e, w2)" by simp
        from w1 w2 x1 Inl show ?thesis unfolding y loop_post_def
          by (auto simp: lift_Inl failures_simps)
      next
        case (Inr n)
        with step(2) False st sd \<open>r1 = Inr u\<close>
        have again: "f T h t (py_slice_from data n) w2 = Some y" by simp
        have ih: "loop_post T h t (py_slice_from data n) w2 y"
          by (rule step(1)[OF again])
        obtain r w' where y: "y = (r, w')" by (cases y)
        from w2 Inr have x2: "trace w2 = trace w1 @ [Send h data (Inr n)]"
          and ts: "t_send T h data (env w1) = (Inr n, env w2)"
          by (auto simp: lift_Inr)
        have nn: "send_nonneg T \<Longrightarrow> 0 \<le> n"
          using ts unfolding send_nonneg_def by blast
        from ih w1 w2 x1 x2 nn show ?thesis unfolding y loop_post_def
          by (cases r) (auto simp: py_slice_from_def failures_simps)
      qed
    qed
  qed
qed

subsection \<open>Reading traces\<close>

lemma accepted_append: "accepted h (xs @ ys) = accepted h xs @ accepted h ys"
  by (induction h xs rule: accepted.induct) simp_all

lemma remaining_append:
  "remaining h (xs @ ys) rest =
     (case remaining h xs rest of None \<Rightarrow> None | Some rest' \<Rightarrow> remaining h ys rest')"
  by (induction h xs rest rule: remaining.induct) (simp_all split: sum.splits)

subsection \<open>The operations, unfolded once\<close>

lemma write_data_Some:
  assumes "write_data T self data timeout w = Some (r, w')"
  shows "(write_lock self \<in> held w \<and> r = Blocked \<and> w' = w) \<or>
         (write_lock self \<notin> held w \<and>
          (\<exists>r0 w1. send_loop T (sock self) (dict_get timeout ''write'') data
                      (acquire (write_lock self) w) = Some (r0, w1) \<and>
                    r = (case r0 of
                           Inl e \<Rightarrow> Raised (remap [(socket_timeout, WriteTimeout),
                                                   (socket_error, WriteError)] e)
                         | Inr v \<Rightarrow> Returned v) \<and>
                    w' = release (write_lock self) w1))"
  using assms
  by (auto simp: write_data_def with_lock_def map_exceptions_def to_outcome_def
           split: if_splits option.splits sum.splits prod.splits)

lemma read_body_post:
  assumes "read_body T h n t w = Some (r, w')"
  shows "held w' = held w \<and> next_lock w' = next_lock w \<and>
         ((\<exists>x. trace w' = trace w @ [Settimeout h t (Inl x)] \<and> r = Inl (Raw x)) \<or>
          (\<exists>x. trace w' = trace w @ [Settimeout h t (Inr ()), Recv h n x] \<and> r = lift x))"
proof -
  obtain r1 w1 where s1: "sock_settimeout T h t w = (r1, w1)"
    by (cases "sock_settimeout T h t w")
  note a1 = sock_settimeout_world[OF s1]
  show ?thesis
  proof (cases r1)
    case (Inl e)
    with assms s1 have "r = Inl e" "w' = w1" by (simp_all add: read_body_def)
    with a1 Inl show ?thesis by (auto simp: lift_Inl)
  next
    case (Inr u)
    with assms s1 have s2: "sock_recv T h n w1 = (r, w')" by (simp add: read_body_def)
    from a1 Inr sock_recv_world[OF s2] show ?thesis by (auto simp: lift_Inr)
  qed
qed

lemma read_body_total: "\<exists>y. read_body T h n t w = Some y"
  by (simp add: read_body_def split: prod.splits sum.splits)

lemma read_Some:
  assumes "read T self n timeout w = Some (r, w')"
  shows "(read_lock self \<in> held w \<and> r = Blocked \<and> w' = w) \<or>
         (read_lock self \<notin> held w \<and>
          (\<exists>r0 w1. read_body T (sock self) n (dict_get timeout ''read'')
                      (acquire (read_lock self) w) = Some (r0, w1) \<and>
                    r = (case r0 of
                           Inl e \<Rightarrow> Raised (remap [(socket_timeout, ReadTimeout),
                                                   (socket_error, ReadError)] e)
                         | Inr v \<Rightarrow> Returned v) \<and>
                    w' = release (read_lock self) w1))"
  using assms
  by (auto simp: read_def with_lock_def map_exceptions_def to_outcome_def
           split: if_splits option.splits sum.splits prod.splits)

lemma read_total: "\<exists>y. read T self n timeout w = Some y"
  using read_body_total[of T "sock self" n "dict_get timeout ''read''" "acquire (read_lock self) w"]
  by (auto simp: read_def with_lock_def map_exceptions_def split: sum.splits)

lemma close_Some:
  assumes "close T self w = Some (r, w')"
  shows "(write_lock self \<in> held w \<and> r = Blocked \<and> w' = w) \<or>
         (write_lock self \<notin> held w \<and>
          (\<exists>r0 w1. sock_close T (sock self) (acquire (write_lock self) w) = (r0, w1) \<and>
                    r = (case r0 of
                           Inl e \<Rightarrow> Raised (remap [(socket_error, CloseError)] e)
                         | Inr v \<Rightarrow> Returned v) \<and>
                    w' = release (write_lock self) w1))"
proof (cases "write_lock self \<in> held w")
  case True
  with assms show ?thesis by (simp add: close_def with_lock_def)
next
  case False
  obtain r0 w1 where c: "sock_close T (sock self) (acquire (write_lock self) w) = (r0, w1)"
    by (cases "sock_close T (sock self) (acquire (write_lock self) w)")
  with assms False show ?thesis
    by (cases r0) (auto simp: close_def with_lock_def map_exceptions_def to_outcome_def)
qed

lemma close_total: "\<exists>y. close T self w = Some y"
  by (cases "sock_close T (sock self) (acquire (write_lock self) w)")
     (auto simp: close_def with_lock_def map_exceptions_def split: sum.splits)

lemma open_body_total: "\<exists>y. open_body T hostname port ssl_context t w = Some y"
  by (simp add: open_body_def split: prod.splits sum.splits option.splits)


lemma SyncSocketStream_world:
  "SyncSocketStream s w = (st, w') \<Longrightarrow>
     st = \<lparr>sock = s, read_lock = next_lock w, write_lock = Suc (next_lock w)\<rparr> \<and>
     trace w' = trace w @ [NewLock (next_lock w), NewLock (Suc (next_lock w))] \<and>
     held w' = held w - {next_lock w, Suc (next_lock w)} \<and>
     next_lock w' = Suc (Suc (next_lock w)) \<and> env w' = env w"
  by (auto simp: SyncSocketStream_def Lock_def log_def split: prod.splits)

lemma open_body_post:
  assumes run: "open_body T hostname port ssl_context t w = Some y"
  shows "open_post hostname port ssl_context t w y"
proof -
  obtain r1 w1 where s1: "socket_socket T w = (r1, w1)" by (cases "socket_socket T w")
  note a1 = socket_socket_world[OF s1]
  show ?thesis
  proof (cases r1)
    case (Inl e)
    with run s1 have y: "y = (Inl e, w1)" by (simp add: open_body_def)
    from a1 Inl show ?thesis unfolding y open_post_def by (auto simp: lift_Inl)
  next
    case (Inr h)
    with a1 have t1: "trace w1 = trace w @ [Socket (Inr h)]" by (auto simp: lift_Inr)
    obtain r2 w2 where s2: "sock_settimeout T h t w1 = (r2, w2)"
      by (cases "sock_settimeout T h t w1")
    note a2 = sock_settimeout_world[OF s2]
    show ?thesis
    proof (cases r2)
      case (Inl e)
      with run s1 s2 \<open>r1 = Inr h\<close> have y: "y = (Inl e, w2)" by (simp add: open_body_def)
      from a1 a2 t1 Inl show ?thesis unfolding y open_post_def by (auto simp: lift_Inl)
    next
      case (Inr u)
      with a2 have t2: "trace w2 = trace w @ [Socket (Inr h), Settimeout h t (Inr ())]"
        by (auto simp: lift_Inr t1)
      note upto2 = s1 s2 \<open>r1 = Inr h\<close> \<open>r2 = Inr u\<close>
      show ?thesis
      proof (cases "decode_ascii hostname")
        case (Inl x)
        then have x: "x = UnicodeDecodeError" by (auto simp: decode_ascii_def split: if_splits)
        from run upto2 Inl have y: "y = (Inl (Raw x), w2)" by (simp add: open_body_def)
        from a1 a2 t2 Inl x show ?thesis unfolding y open_post_def by simp
      next
        case (Inr host)
        obtain r3 w3 where s3: "sock_connect T h host port w2 = (r3, w3)"
          by (cases "sock_connect T h host port w2")
        note a3 = sock_connect_world[OF s3]
        show ?thesis
        proof (cases r3)
          case (Inl e)
          with run upto2 s3 \<open>decode_ascii hostname = Inr host\<close>
          have y: "y = (Inl e, w3)" by (simp add: open_body_def)
          from a1 a2 a3 t2 Inl \<open>decode_ascii hostname = Inr host\<close>
          show ?thesis unfolding y open_post_def by (auto simp: lift_Inl)
        next
          case (Inr u3)
          with a3 have t3: "trace w3 = trace w @ [Socket (Inr h), Settimeout h t (Inr ()),
                                                 Connect h host port (Inr ())]"
            by (auto simp: lift_Inr t2)
          have l3: "held w3 = held w" "next_lock w3 = next_lock w" using a1 a2 a3 by simp_all
          note upto3 = upto2 s3 \<open>decode_ascii hostname = Inr host\<close> \<open>r3 = Inr u3\<close>
          show ?thesis
          proof (cases ssl_context)
            case None
            obtain st w5 where s5: "SyncSocketStream h w3 = (st, w5)"
              by (cases "SyncSocketStream h w3")
            note a5 = SyncSocketStream_world[OF s5]
            from run upto3 None s5 have y: "y = (Inr st, w5)" by (simp add: open_body_def)
            from a5 t3 l3 None \<open>decode_ascii hostname = Inr host\<close>
            show ?thesis unfolding y open_post_def by simp
          next
            case (Some c)
            obtain r4 w4 where s4: "wrap_socket T c h host w3 = (r4, w4)"
              by (cases "wrap_socket T c h host w3")
            note a4 = wrap_socket_world[OF s4]
            show ?thesis
            proof (cases r4)
              case (Inl e)
              with run upto3 Some s4 have y: "y = (Inl e, w4)" by (simp add: open_body_def)
              from a4 t3 l3 Inl Some \<open>decode_ascii hostname = Inr host\<close>
              show ?thesis unfolding y open_post_def by (auto simp: lift_Inl)
            next
              case (Inr h')
              with a4 have t4: "trace w4 = trace w @ [Socket (Inr h), Settimeout h t (Inr ()),
                                   Connect h host port (Inr ()), WrapSocket c h host (Inr h')]"
                by (auto simp: lift_Inr t3)
              have l4: "held w4 = held w" "next_lock w4 = next_lock w" using a4 l3 by simp_all
              obtain st w5 where s5: "SyncSocketStream h' w4 = (st, w5)"
                by (cases "SyncSocketStream h' w4")
              note a5 = SyncSocketStream_world[OF s5]
              from run upto3 Some s4 Inr s5 have y: "y = (Inr st, w5)"
                by (simp add: open_body_def)
              from a5 t4 l4 Some \<open>decode_ascii hostname = Inr host\<close>
              show ?thesis unfolding y open_post_def by simp
            qed
          qed
        qed
      qed
    qed
  qed
qed

lemma open_tcp_stream_Some:
  assumes "open_tcp_stream T hostname port ssl_context timeout w = Some (r, w')"
  shows "\<exists>r0. open_post hostname port ssl_context (dict_get timeout ''connect'') w (r0, w') \<and>
              r = (case r0 of
                     Inl e \<Rightarrow> Inl (remap [(socket_timeout, ConnectTimeout),
                                          (socket_error, ConnectError)] e)
                   | Inr v \<Rightarrow> Inr v)"
  using assms open_body_post[of T hostname port ssl_context "dict_get timeout ''connect''" w]
  by (auto simp: open_tcp_stream_def map_exceptions_Some)

lemma open_tcp_stream_total: "\<exists>y. open_tcp_stream T hostname port ssl_context timeout w = Some y"
  using open_body_total[of T hostname port ssl_context "dict_get timeout ''connect''" w]
  by (auto simp: open_tcp_stream_def map_exceptions_def split: sum.splits)

subsection \<open>Runs on the concrete transport\<close>

lemma sim_send_nonneg: "send_nonneg sim_transport"
  by (simp add: send_nonneg_def sim_transport_def sim_send_def split: if_splits)

lemma run_write_hello:
  "write_data sim_transport stream1 ''hello'' Map.empty world1 =
     Some (Returned (),
           world1\<lparr>trace := [Acquire 1, Settimeout 0 None (Inr ()), Send 0 ''hello'' (Inr 2),
               Settimeout 0 None (Inr ()), Send 0 ''llo'' (Inr 2),
               Settimeout 0 None (Inr ()), Send 0 ''o'' (Inr 1), Release 1]\<rparr>)"
  by (simp add: write_data_def with_lock_def map_exceptions_def send_loop.simps to_outcome_def
        acquire_def release_def log_def world1_def sim1_def stream1_def dict_get_def
        sock_settimeout_def sock_send_def sim_transport_def sim_settimeout_def sim_send_def
        lift_def py_slice_from_def)

section \<open>The claims\<close>

subsection \<open>C1: a write that returns has handed over the whole buffer\<close>

text \<open>
  C1. If \<open>write(data, deadlines)\<close> returns, then the bytes the transport took on the
  stream's handle during the call, in the order of the sends, are exactly \<open>data\<close>: nothing
  is missing and nothing was taken twice. Moreover every send offered exactly the part of
  the buffer that had not been taken yet, and nothing is left at the end. The platform is
  assumed to return counts that are not negative.
\<close>

theorem write_hands_over_whole_buffer:
  assumes "write_data T self data timeout w = Some (Returned (), w')"
      and "send_nonneg T"
  shows "accepted (sock self) (new_events w w') = data \<and>
         remaining (sock self) (new_events w w') data = Some []"
proof -
  from write_data_Some[OF assms(1)] obtain r0 w1 where
    loop: "send_loop T (sock self) (dict_get timeout ''write'') data
             (acquire (write_lock self) w) = Some (r0, w1)"
    and r: "Returned () = (case r0 of
                           Inl e \<Rightarrow> Raised (remap [(socket_timeout, WriteTimeout),
                                                   (socket_error, WriteError)] e)
                         | Inr v \<Rightarrow> Returned v)"
    and w': "w' = release (write_lock self) w1"
    by auto
  from r have r0: "r0 = Inr ()" by (cases r0) auto
  from send_loop_post[OF loop] assms(2) r0 obtain evs where
    tr: "trace w1 = trace (acquire (write_lock self) w) @ evs"
    and acc: "accepted (sock self) evs = data"
    and rem: "remaining (sock self) evs data = Some []"
    by (auto simp: loop_post_def)
  have ne: "new_events w w' = Acquire (write_lock self) # evs @ [Release (write_lock self)]"
    by (rule new_events_append) (simp add: w' release_fields tr acquire_fields)
  show ?thesis
    by (simp add: ne accepted_append remaining_append acc rem)
qed

text \<open>Writing five bytes through a transport that takes two at a time.\<close>

theorem write_hands_over_whole_buffer_witness:
  "write_data sim_transport stream1 ''hello'' Map.empty world1 =
     Some (Returned (),
           world1\<lparr>trace := [Acquire 1, Settimeout 0 None (Inr ()), Send 0 ''hello'' (Inr 2),
               Settimeout 0 None (Inr ()), Send 0 ''llo'' (Inr 2),
               Settimeout 0 None (Inr ()), Send 0 ''o'' (Inr 1), Release 1]\<rparr>) \<and>
   send_nonneg sim_transport \<and>
   accepted 0 [Acquire 1, Settimeout 0 None (Inr ()), Send 0 ''hello'' (Inr 2),
               Settimeout 0 None (Inr ()), Send 0 ''llo'' (Inr 2),
               Settimeout 0 None (Inr ()), Send 0 ''o'' (Inr 1), Release 1] = ''hello''"
  using write_hands_over_whole_buffer[OF run_write_hello sim_send_nonneg]
    run_write_hello sim_send_nonneg
  by (simp add: new_events_def world1_def stream1_def)

subsection \<open>C9: writing nothing\<close>

text \<open>
  C9. When the write lock is free, \<open>write\<close> of the empty byte sequence takes the write
  lock, releases it and returns; it makes no call of the platform, so no deadline is
  applied and the loop body never runs. Nothing is asked of the handle, so this holds for a
  handle that was closed as well.
\<close>

theorem write_empty_is_noop:
  "write_lock self \<notin> held w \<Longrightarrow>
     write_data T self [] timeout w =
       Some (Returned (),
             w\<lparr>trace := trace w @ [Acquire (write_lock self), Release (write_lock self)]\<rparr>)"
  by (simp add: write_data_def with_lock_def map_exceptions_def send_loop.simps to_outcome_def
        acquire_def release_def log_def)

text \<open>On the stream whose socket was closed.\<close>

theorem write_empty_is_noop_witness:
  "write_lock stream1 \<notin> held closed1 \<and> sock stream1 \<notin> sim_open (env closed1) \<and>
   write_data sim_transport stream1 [] Map.empty closed1 =
     Some (Returned (),
           closed1\<lparr>trace := [Acquire 1, Close 0 (Inr ()), Release 1, Acquire 1, Release 1]\<rparr>)"
  using write_empty_is_noop[of stream1 closed1 sim_transport Map.empty]
  by (simp add: stream1_def closed1_def)

lemmas run_defs =
  read_def read_body_def write_data_def close_def is_connection_dropped_def
  open_tcp_stream_def open_body_def SyncSocketStream_def Lock_def
  with_lock_def map_exceptions_def to_outcome_def acquire_def release_def log_def lift_def
  dict_get_def py_slice_from_def decode_ascii_def
  socket_socket_def sock_settimeout_def sock_connect_def wrap_socket_def sock_recv_def
  sock_send_def sock_close_def select_select_def
  sim_transport_def sim_socket_def sim_settimeout_def sim_connect_def sim_wrap_socket_def
  sim_recv_def sim_send_def sim_close_def sim_select_def
  sim0_def sim1_def world0_def world1_def stream1_def closed1_def refusing0_def
  writer_busy1_def reader_busy1_def

lemma guardedI:
  "list_all (on_handle h) body \<Longrightarrow> guarded l h (Acquire l # body @ [Release l])"
  by (simp add: guarded_def)

lemma held_restored: "l \<notin> H \<Longrightarrow> insert l H - {l} = H"
  by auto

lemma read_locks:
  assumes "read T self n timeout w = Some (r, w')"
  shows "if read_lock self \<in> held w then r = Blocked \<and> w' = w
         else r \<noteq> Blocked \<and> held w' = held w \<and>
              guarded (read_lock self) (sock self) (new_events w w')"
proof (cases "read_lock self \<in> held w")
  case True
  with read_Some[OF assms] show ?thesis by auto
next
  case False
  with read_Some[OF assms] obtain r0 w1 where
    b: "read_body T (sock self) n (dict_get timeout ''read'')
          (acquire (read_lock self) w) = Some (r0, w1)"
    and r: "r = (case r0 of
                   Inl e \<Rightarrow> Raised (remap [(socket_timeout, ReadTimeout),
                                           (socket_error, ReadError)] e)
                 | Inr v \<Rightarrow> Returned v)"
    and w': "w' = release (read_lock self) w1"
    by auto
  from read_body_post[OF b] obtain body where
    h: "held w1 = insert (read_lock self) (held w)"
    and tr: "trace w1 = trace w @ Acquire (read_lock self) # body"
    and body: "list_all (on_handle (sock self)) body"
    by (auto simp: acquire_fields)
  have ne: "new_events w w' = Acquire (read_lock self) # body @ [Release (read_lock self)]"
    by (rule new_events_append) (simp add: w' release_fields tr)
  from r have nb: "r \<noteq> Blocked" by (cases r0) auto
  have g: "guarded (read_lock self) (sock self) (new_events w w')"
    unfolding ne by (rule guardedI[OF body])
  have hh: "held w' = held w"
    using False h by (simp add: w' release_fields held_restored)
  from False nb g hh show ?thesis by simp
qed

lemma write_locks:
  assumes "write_data T self data timeout w = Some (r, w')"
  shows "if write_lock self \<in> held w then r = Blocked \<and> w' = w
         else r \<noteq> Blocked \<and> held w' = held w \<and>
              guarded (write_lock self) (sock self) (new_events w w')"
proof (cases "write_lock self \<in> held w")
  case True
  with write_data_Some[OF assms] show ?thesis by auto
next
  case False
  with write_data_Some[OF assms] obtain r0 w1 where
    b: "send_loop T (sock self) (dict_get timeout ''write'') data
          (acquire (write_lock self) w) = Some (r0, w1)"
    and r: "r = (case r0 of
                   Inl e \<Rightarrow> Raised (remap [(socket_timeout, WriteTimeout),
                                           (socket_error, WriteError)] e)
                 | Inr v \<Rightarrow> Returned v)"
    and w': "w' = release (write_lock self) w1"
    by auto
  from send_loop_post[OF b] obtain body where
    h: "held w1 = insert (write_lock self) (held w)"
    and tr: "trace w1 = trace w @ Acquire (write_lock self) # body"
    and body: "list_all (on_handle (sock self)) body"
    by (auto simp: loop_post_def acquire_fields)
  have ne: "new_events w w' = Acquire (write_lock self) # body @ [Release (write_lock self)]"
    by (rule new_events_append) (simp add: w' release_fields tr)
  from r have nb: "r \<noteq> Blocked" by (cases r0) auto
  have g: "guarded (write_lock self) (sock self) (new_events w w')"
    unfolding ne by (rule guardedI[OF body])
  have hh: "held w' = held w"
    using False h by (simp add: w' release_fields held_restored)
  from False nb g hh show ?thesis by simp
qed

lemma close_locks:
  assumes "close T self w = Some (r, w')"
  shows "if write_lock self \<in> held w then r = Blocked \<and> w' = w
         else r \<noteq> Blocked \<and> held w' = held w \<and>
              guarded (write_lock self) (sock self) (new_events w w')"
proof (cases "write_lock self \<in> held w")
  case True
  with close_Some[OF assms] show ?thesis by auto
next
  case False
  with close_Some[OF assms] obtain r0 w1 where
    b: "sock_close T (sock self) (acquire (write_lock self) w) = (r0, w1)"
    and r: "r = (case r0 of
                   Inl e \<Rightarrow> Raised (remap [(socket_error, CloseError)] e)
                 | Inr v \<Rightarrow> Returned v)"
    and w': "w' = release (write_lock self) w1"
    by auto
  from sock_close_world[OF b] obtain body where
    h: "held w1 = insert (write_lock self) (held w)"
    and tr: "trace w1 = trace w @ Acquire (write_lock self) # body"
    and body: "list_all (on_handle (sock self)) body"
    by (auto simp: acquire_fields)
  have ne: "new_events w w' = Acquire (write_lock self) # body @ [Release (write_lock self)]"
    by (rule new_events_append) (simp add: w' release_fields tr)
  from r have nb: "r \<noteq> Blocked" by (cases r0) auto
  have g: "guarded (write_lock self) (sock self) (new_events w w')"
    unfolding ne by (rule guardedI[OF body])
  have hh: "held w' = held w"
    using False h by (simp add: w' release_fields held_restored)
  from False nb g hh show ?thesis by simp
qed

subsection \<open>C7: each operation works inside its own lock\<close>

text \<open>
  C7. \<open>read\<close> depends on the read lock only, \<open>write\<close> and \<open>close\<close> on the write lock
  only. When its lock is held by someone else the operation waits and has done nothing.
  Otherwise it takes the lock, makes its calls of the platform on the stream's handle, and
  releases the lock as its last step, whether it returns or raises: the set of held locks
  is afterwards what it was before. Since \<open>read\<close> never looks at the write lock, nor
  \<open>write\<close> and \<open>close\<close> at the read lock, a reader and a writer do not wait for each
  other. \<open>read\<close> and \<open>close\<close> always come to an end.
\<close>

theorem lock_discipline:
  "(\<exists>r w'. read T self n timeout w = Some (r, w')) \<and>
   (\<forall>r w'. read T self n timeout w = Some (r, w') \<longrightarrow>
      (if read_lock self \<in> held w then r = Blocked \<and> w' = w
       else r \<noteq> Blocked \<and> held w' = held w \<and>
            guarded (read_lock self) (sock self) (new_events w w'))) \<and>
   (\<forall>r w'. write_data T self data timeout w = Some (r, w') \<longrightarrow>
      (if write_lock self \<in> held w then r = Blocked \<and> w' = w
       else r \<noteq> Blocked \<and> held w' = held w \<and>
            guarded (write_lock self) (sock self) (new_events w w'))) \<and>
   (\<exists>r w'. close T self w = Some (r, w')) \<and>
   (\<forall>r w'. close T self w = Some (r, w') \<longrightarrow>
      (if write_lock self \<in> held w then r = Blocked \<and> w' = w
       else r \<noteq> Blocked \<and> held w' = held w \<and>
            guarded (write_lock self) (sock self) (new_events w w')))"
  using read_total[of T self n timeout w] close_total[of T self w]
  by (auto dest: read_locks write_locks close_locks)

lemma run_read_reader_busy:
  "read sim_transport stream1 3 Map.empty reader_busy1 = Some (Blocked, reader_busy1)"
  by (simp add: run_defs)

lemma run_write_reader_busy:
  "write_data sim_transport stream1 ''hi'' Map.empty reader_busy1 =
     Some (Returned (),
           reader_busy1\<lparr>trace := [Acquire 1, Settimeout 0 None (Inr ()),
                                   Send 0 ''hi'' (Inr 2), Release 1]\<rparr>)"
  by (simp add: run_defs send_loop.simps)

lemma run_close_reader_busy:
  "close sim_transport stream1 reader_busy1 =
     Some (Returned (),
           reader_busy1\<lparr>env := sim1\<lparr>sim_open := {}\<rparr>,
                        trace := [Acquire 1, Close 0 (Inr ()), Release 1]\<rparr>)"
  by (simp add: run_defs)

lemma run_write_writer_busy:
  "write_data sim_transport stream1 ''hi'' Map.empty writer_busy1 =
     Some (Blocked, writer_busy1)"
  by (simp add: run_defs)

lemma run_read_writer_busy:
  "read sim_transport stream1 3 Map.empty writer_busy1 =
     Some (Returned ''pon'',
           writer_busy1\<lparr>env := sim1\<lparr>sim_inbox := ''g''\<rparr>,
                        trace := [Acquire 0, Settimeout 0 None (Inr ()),
                                  Recv 0 3 (Inr ''pon''), Release 0]\<rparr>)"
  by (simp add: run_defs)

text \<open>
  With the read lock held by another thread, \<open>read\<close> waits while \<open>write\<close> and
  \<open>close\<close> go ahead under the write lock; with the write lock held by another thread,
  \<open>write\<close> waits while \<open>read\<close> goes ahead under the read lock.
\<close>

theorem lock_discipline_witness:
  "read sim_transport stream1 3 Map.empty reader_busy1 = Some (Blocked, reader_busy1) \<and>
   read_lock stream1 \<in> held reader_busy1 \<and> write_lock stream1 \<notin> held reader_busy1 \<and>
   write_data sim_transport stream1 ''hi'' Map.empty reader_busy1 =
     Some (Returned (),
           reader_busy1\<lparr>trace := [Acquire 1, Settimeout 0 None (Inr ()),
                                   Send 0 ''hi'' (Inr 2), Release 1]\<rparr>) \<and>
   guarded 1 0 [Acquire 1, Settimeout 0 None (Inr ()), Send 0 ''hi'' (Inr 2), Release 1] \<and>
   close sim_transport stream1 reader_busy1 =
     Some (Returned (),
           reader_busy1\<lparr>env := sim1\<lparr>sim_open := {}\<rparr>,
                        trace := [Acquire 1, Close 0 (Inr ()), Release 1]\<rparr>) \<and>
   guarded 1 0 [Acquire 1, Close 0 (Inr ()), Release 1] \<and>
   write_lock stream1 \<in> held writer_busy1 \<and> read_lock stream1 \<notin> held writer_busy1 \<and>
   read sim_transport stream1 3 Map.empty writer_busy1 =
     Some (Returned ''pon'',
           writer_busy1\<lparr>env := sim1\<lparr>sim_inbox := ''g''\<rparr>,
                        trace := [Acquire 0, Settimeout 0 None (Inr ()),
                                  Recv 0 3 (Inr ''pon''), Release 0]\<rparr>) \<and>
   guarded 0 0 [Acquire 0, Settimeout 0 None (Inr ()), Recv 0 3 (Inr ''pon''), Release 0] \<and>
   write_data sim_transport stream1 ''hi'' Map.empty writer_busy1 =
     Some (Blocked, writer_busy1)"
  using lock_discipline[of sim_transport stream1 3 Map.empty reader_busy1 "''hi''"]
    lock_discipline[of sim_transport stream1 3 Map.empty writer_busy1 "''hi''"]
    run_read_reader_busy run_write_reader_busy run_close_reader_busy
    run_read_writer_busy run_write_writer_busy
  by (simp add: new_events_def reader_busy1_def writer_busy1_def stream1_def)

subsection \<open>Deadlines\<close>






subsection \<open>C6: the deadline applied is the one of the call's own phase\<close>






subsection \<open>What the exception maps do to a failure\<close>

lemma remap_two_ok:
  assumes "kind_for_class p x = (if x = SocketTimeout then kt else ke)"
  shows "remap [(socket_timeout, kt), (socket_error, ke)] (Raw x) = surfaced p x"
  using assms by (cases x) (simp_all add: is_socket_error_def surfaced_def)

lemma remap_one_ok:
  "remap [(socket_error, CloseError)] (Raw x) = surfaced Closing x"
  by (cases x) (simp_all add: is_socket_error_def surfaced_def)

lemma surfaced_is_mapped_or_foreign: "mapped_or_foreign p (surfaced p x)"
  by (simp add: surfaced_def)

lemma failures_section:
  "failures (Acquire l # body @ [Release l]) = failures body"
  by (simp add: failures_simps)

lemma failed_lift:
  "map Raw (case x of Inl y \<Rightarrow> [y] | Inr v \<Rightarrow> []) = (case lift x of Inl e \<Rightarrow> [e] | Inr v \<Rightarrow> [])"
  by (cases x) (simp_all add: lift_def)

lemma read_mapped:
  assumes "read T self n timeout w = Some (r, w')"
  shows "(\<forall>x\<in>set (failures (new_events w w')). r = Raised (surfaced Reading x)) \<and>
         (\<forall>e. r = Raised e \<longrightarrow> mapped_or_foreign Reading e)"
proof (cases "read_lock self \<in> held w")
  case True
  with read_Some[OF assms] show ?thesis by (auto simp: new_events_def failures_simps)
next
  case False
  with read_Some[OF assms] obtain r0 w1 where
    b: "read_body T (sock self) n (dict_get timeout ''read'')
          (acquire (read_lock self) w) = Some (r0, w1)"
    and r: "r = (case r0 of
                   Inl e \<Rightarrow> Raised (remap [(socket_timeout, ReadTimeout),
                                           (socket_error, ReadError)] e)
                 | Inr v \<Rightarrow> Returned v)"
    and w': "w' = release (read_lock self) w1"
    by auto
  from read_body_post[OF b] obtain body where
    tr: "trace w1 = trace w @ Acquire (read_lock self) # body"
    and fs: "map Raw (failures body) = (case r0 of Inl e \<Rightarrow> [e] | Inr v \<Rightarrow> [])"
    by (auto simp: acquire_fields failures_simps failed_lift[symmetric] split: sum.splits)
  have ne: "new_events w w' = Acquire (read_lock self) # body @ [Release (read_lock self)]"
    by (rule new_events_append) (simp add: w' release_fields tr)
  have k: "\<And>x. kind_for_class Reading x = (if x = SocketTimeout then ReadTimeout else ReadError)"
    by simp
  show ?thesis
  proof (cases r0)
    case (Inl e)
    with fs obtain x where x: "failures body = [x]" "e = Raw x" by (cases "failures body") auto
    with remap_two_ok[OF k, of x] r Inl show ?thesis
      unfolding ne failures_section
      by (simp add: surfaced_is_mapped_or_foreign del: remap.simps)
  next
    case (Inr v)
    with fs r show ?thesis unfolding ne failures_section by simp
  qed
qed

lemma write_mapped:
  assumes "write_data T self data timeout w = Some (r, w')"
  shows "(\<forall>x\<in>set (failures (new_events w w')). r = Raised (surfaced Writing x)) \<and>
         (\<forall>e. r = Raised e \<longrightarrow> mapped_or_foreign Writing e)"
proof (cases "write_lock self \<in> held w")
  case True
  with write_data_Some[OF assms] show ?thesis by (auto simp: new_events_def failures_simps)
next
  case False
  with write_data_Some[OF assms] obtain r0 w1 where
    b: "send_loop T (sock self) (dict_get timeout ''write'') data
          (acquire (write_lock self) w) = Some (r0, w1)"
    and r: "r = (case r0 of
                   Inl e \<Rightarrow> Raised (remap [(socket_timeout, WriteTimeout),
                                           (socket_error, WriteError)] e)
                 | Inr v \<Rightarrow> Returned v)"
    and w': "w' = release (write_lock self) w1"
    by auto
  from send_loop_post[OF b] obtain body where
    tr: "trace w1 = trace w @ Acquire (write_lock self) # body"
    and fs: "map Raw (failures body) = (case r0 of Inl e \<Rightarrow> [e] | Inr v \<Rightarrow> [])"
    by (auto simp: loop_post_def acquire_fields)
  have ne: "new_events w w' = Acquire (write_lock self) # body @ [Release (write_lock self)]"
    by (rule new_events_append) (simp add: w' release_fields tr)
  have k: "\<And>x. kind_for_class Writing x = (if x = SocketTimeout then WriteTimeout else WriteError)"
    by simp
  show ?thesis
  proof (cases r0)
    case (Inl e)
    with fs obtain x where x: "failures body = [x]" "e = Raw x" by (cases "failures body") auto
    with remap_two_ok[OF k, of x] r Inl show ?thesis
      unfolding ne failures_section
      by (simp add: surfaced_is_mapped_or_foreign del: remap.simps)
  next
    case (Inr v)
    with fs r show ?thesis unfolding ne failures_section by simp
  qed
qed

lemma close_mapped:
  assumes "close T self w = Some (r, w')"
  shows "(\<forall>x\<in>set (failures (new_events w w')). r = Raised (surfaced Closing x)) \<and>
         (\<forall>e. r = Raised e \<longrightarrow> mapped_or_foreign Closing e)"
proof (cases "write_lock self \<in> held w")
  case True
  with close_Some[OF assms] show ?thesis by (auto simp: new_events_def failures_simps)
next
  case False
  with close_Some[OF assms] obtain r0 w1 where
    b: "sock_close T (sock self) (acquire (write_lock self) w) = (r0, w1)"
    and r: "r = (case r0 of
                   Inl e \<Rightarrow> Raised (remap [(socket_error, CloseError)] e)
                 | Inr v \<Rightarrow> Returned v)"
    and w': "w' = release (write_lock self) w1"
    by auto
  from sock_close_world[OF b] obtain body where
    tr: "trace w1 = trace w @ Acquire (write_lock self) # body"
    and fs: "map Raw (failures body) = (case r0 of Inl e \<Rightarrow> [e] | Inr v \<Rightarrow> [])"
    by (auto simp: acquire_fields failures_simps failed_lift[symmetric] split: sum.splits)
  have ne: "new_events w w' = Acquire (write_lock self) # body @ [Release (write_lock self)]"
    by (rule new_events_append) (simp add: w' release_fields tr)
  show ?thesis
  proof (cases r0)
    case (Inl e)
    with fs obtain x where x: "failures body = [x]" "e = Raw x" by (cases "failures body") auto
    with remap_one_ok[of x] r Inl show ?thesis
      unfolding ne failures_section
      by (simp add: surfaced_is_mapped_or_foreign del: remap.simps)
  next
    case (Inr v)
    with fs r show ?thesis unfolding ne failures_section by simp
  qed
qed

lemma open_post_failures:
  assumes "open_post hostname port ssl_context t w (r0, w')"
  shows "(\<forall>x\<in>set (failures (new_events w w')). r0 = Inl (Raw x)) \<and>
         (\<forall>e. r0 = Inl e \<longrightarrow> (\<exists>x. e = Raw x \<and>
               (failures (new_events w w') = [x] \<or>
                failures (new_events w w') = [] \<and> x = UnicodeDecodeError)))"
proof -
  from assms obtain evs where tr: "trace w' = trace w @ evs"
    and sh: "(\<forall>x\<in>set (failures evs). r0 = Inl (Raw x)) \<and>
         (\<forall>e. r0 = Inl e \<longrightarrow> (\<exists>x. e = Raw x \<and>
               (failures evs = [x] \<or> failures evs = [] \<and> x = UnicodeDecodeError)))"
    unfolding open_post_def by (elim case_prodE exE conjE disjE) (simp_all add: failures_simps)
  from sh show ?thesis unfolding new_events_append[OF tr] .
qed

lemma open_mapped:
  assumes "open_tcp_stream T hostname port ssl_context timeout w = Some (r, w')"
  shows "(\<forall>x\<in>set (failures (new_events w w')). r = Inl (surfaced Connecting x)) \<and>
         (\<forall>e. r = Inl e \<longrightarrow> mapped_or_foreign Connecting e)"
proof -
  from open_tcp_stream_Some[OF assms] obtain r0 where
    post: "open_post hostname port ssl_context (dict_get timeout ''connect'') w (r0, w')"
    and r: "r = (case r0 of
                   Inl e \<Rightarrow> Inl (remap [(socket_timeout, ConnectTimeout),
                                        (socket_error, ConnectError)] e)
                 | Inr v \<Rightarrow> Inr v)"
    by auto
  note f = open_post_failures[OF post]
  have k: "\<And>x. kind_for_class Connecting x =
              (if x = SocketTimeout then ConnectTimeout else ConnectError)"
    by simp
  show ?thesis
  proof (cases r0)
    case (Inl e)
    with f obtain x where x: "e = Raw x" by auto
    from f Inl x have only: "\<forall>y\<in>set (failures (new_events w w')). y = x" by auto
    have r': "r = Inl (remap [(socket_timeout, ConnectTimeout), (socket_error, ConnectError)]
                         (Raw x))"
      using r Inl x by simp
    from remap_two_ok[OF k, of x] only show ?thesis
      unfolding r' by (auto simp: surfaced_is_mapped_or_foreign simp del: remap.simps)
  next
    case (Inr v)
    with f r show ?thesis by auto
  qed
qed

subsection \<open>C2: what surfaces when a call of the platform fails\<close>

text \<open>
  C2, as amended. In \<open>read\<close>, \<open>write\<close>, \<open>close\<close> and \<open>open\<close>, whenever a call of the
  platform raises, the operation raises what the exception map of its phase makes of that
  exception, and the map goes by the class of the exception. An instance of
  \<^verbatim>\<open>socket.error\<close> surfaces as one of the seven kinds, made from it: the timeout kind of
  the phase when it is an instance of \<^verbatim>\<open>socket.timeout\<close>, the generic kind of the phase
  for every other \<^verbatim>\<open>OSError\<close>, and \<open>CloseError\<close> for every \<^verbatim>\<open>OSError\<close> while
  closing. An exception of any other class surfaces as it is. Conversely, whatever an
  operation raises is either one of the kinds with the \<^verbatim>\<open>OSError\<close> that caused it inside,
  or an exception that is not an \<^verbatim>\<open>OSError\<close>: an \<^verbatim>\<open>OSError\<close> never leaves as it is.
\<close>

theorem platform_failures_surface_by_class:
  "(\<forall>r w'. read T self n timeout w = Some (r, w') \<longrightarrow>
      (\<forall>x\<in>set (failures (new_events w w')). r = Raised (surfaced Reading x)) \<and>
      (\<forall>e. r = Raised e \<longrightarrow> mapped_or_foreign Reading e)) \<and>
   (\<forall>r w'. write_data T self data timeout w = Some (r, w') \<longrightarrow>
      (\<forall>x\<in>set (failures (new_events w w')). r = Raised (surfaced Writing x)) \<and>
      (\<forall>e. r = Raised e \<longrightarrow> mapped_or_foreign Writing e)) \<and>
   (\<forall>r w'. close T self w = Some (r, w') \<longrightarrow>
      (\<forall>x\<in>set (failures (new_events w w')). r = Raised (surfaced Closing x)) \<and>
      (\<forall>e. r = Raised e \<longrightarrow> mapped_or_foreign Closing e)) \<and>
   (\<forall>r w'. open_tcp_stream T hostname port ssl_context timeout w = Some (r, w') \<longrightarrow>
      (\<forall>x\<in>set (failures (new_events w w')). r = Inl (surfaced Connecting x)) \<and>
      (\<forall>e. r = Inl e \<longrightarrow> mapped_or_foreign Connecting e))"
  using read_mapped[of T self n timeout w] write_mapped[of T self data timeout w]
    close_mapped[of T self w] open_mapped[of T hostname port ssl_context timeout w]
  by blast

lemma run_read_faulty:
  "read faulty stream1 3 Map.empty world1 =
     Some (Raised (Semantic ReadTimeout SocketTimeout),
           world1\<lparr>trace := [Acquire 0, Settimeout 0 None (Inr ()),
                            Recv 0 3 (Inl SocketTimeout), Release 0]\<rparr>)"
  by (simp add: run_defs faulty_def)

lemma run_write_faulty:
  "write_data faulty stream1 ''hi'' Map.empty world1 =
     Some (Raised (Semantic WriteError (OSError EPIPE)),
           world1\<lparr>trace := [Acquire 1, Settimeout 0 None (Inr ()),
                            Send 0 ''hi'' (Inl (OSError EPIPE)), Release 1]\<rparr>)"
  by (simp add: run_defs faulty_def send_loop.simps)

lemma run_close_faulty:
  "close faulty stream1 world1 =
     Some (Raised (Semantic CloseError (OSError (Errno 5))),
           world1\<lparr>trace := [Acquire 1, Close 0 (Inl (OSError (Errno 5))), Release 1]\<rparr>)"
  by (simp add: run_defs faulty_def)

lemma run_open_faulty:
  "open_tcp_stream faulty ''localhost'' 80 None Map.empty world1 =
     Some (Inl (Semantic ConnectTimeout SocketTimeout),
           world1\<lparr>env := sim1\<lparr>sim_next := 2, sim_open := {0, 1}\<rparr>,
                  trace := [Socket (Inr 1), Settimeout 1 None (Inr ()),
                            Connect 1 ''localhost'' 80 (Inl SocketTimeout)]\<rparr>)"
  by (simp add: run_defs faulty_def insert_commute)

text \<open>The four operations against the peer that has gone away.\<close>

theorem platform_failures_surface_by_class_witness:
  "read faulty stream1 3 Map.empty world1 =
     Some (Raised (Semantic ReadTimeout SocketTimeout),
           world1\<lparr>trace := [Acquire 0, Settimeout 0 None (Inr ()),
                            Recv 0 3 (Inl SocketTimeout), Release 0]\<rparr>) \<and>
   write_data faulty stream1 ''hi'' Map.empty world1 =
     Some (Raised (Semantic WriteError (OSError EPIPE)),
           world1\<lparr>trace := [Acquire 1, Settimeout 0 None (Inr ()),
                            Send 0 ''hi'' (Inl (OSError EPIPE)), Release 1]\<rparr>) \<and>
   close faulty stream1 world1 =
     Some (Raised (Semantic CloseError (OSError (Errno 5))),
           world1\<lparr>trace := [Acquire 1, Close 0 (Inl (OSError (Errno 5))), Release 1]\<rparr>) \<and>
   open_tcp_stream faulty ''localhost'' 80 None Map.empty world1 =
     Some (Inl (Semantic ConnectTimeout SocketTimeout),
           world1\<lparr>env := sim1\<lparr>sim_next := 2, sim_open := {0, 1}\<rparr>,
                  trace := [Socket (Inr 1), Settimeout 1 None (Inr ()),
                            Connect 1 ''localhost'' 80 (Inl SocketTimeout)]\<rparr>) \<and>
   is_socket_error SocketTimeout \<and> is_socket_error (OSError EPIPE) \<and>
   is_socket_error (OSError (Errno 5)) \<and>
   mapped_or_foreign Reading (Semantic ReadTimeout SocketTimeout) \<and>
   mapped_or_foreign Writing (Semantic WriteError (OSError EPIPE)) \<and>
   mapped_or_foreign Closing (Semantic CloseError (OSError (Errno 5))) \<and>
   mapped_or_foreign Connecting (Semantic ConnectTimeout SocketTimeout) \<and>
   surfaced Reading SocketTimeout = Semantic ReadTimeout SocketTimeout \<and>
   surfaced Writing (OSError EPIPE) = Semantic WriteError (OSError EPIPE) \<and>
   surfaced Closing (OSError (Errno 5)) = Semantic CloseError (OSError (Errno 5)) \<and>
   surfaced Connecting SocketTimeout = Semantic ConnectTimeout SocketTimeout"
  using platform_failures_surface_by_class[of faulty stream1 3 Map.empty world1 "''hi''"
          "''localhost''" 80 None]
    run_read_faulty run_write_faulty run_close_faulty run_open_faulty
  by (simp add: new_events_def world1_def failures_simps is_socket_error_def surfaced_def)

lemma run_read_zero_deadline:
  "read slow_peer stream1 1024 deadlines0 slow_world =
     Some (Raised (Semantic ReadError (OSError (Errno 11))),
           \<lparr>env = Some 0, held = {}, next_lock = 2,
            trace = [Acquire 0, Settimeout 0 (Some 0) (Inr ()),
                     Recv 0 1024 (Inl (OSError (Errno 11))), Release 0]\<rparr>)"
  by (simp add: run_defs slow_peer_def slow_world_def deadlines0_def Let_def)

lemma run_read_negative_size:
  "read sim_transport stream1 (- 1) Map.empty world1 =
     Some (Raised (Raw ValueError),
           world1\<lparr>trace := [Acquire 0, Settimeout 0 None (Inr ()),
                            Recv 0 (- 1) (Inl ValueError), Release 0]\<rparr>)"
  by (simp add: run_defs)

text \<open>
  The claim as stated fails twice. A read deadline of 0 that expires, the peer having sent
  nothing yet, surfaces as \<open>ReadError\<close>, not as \<open>ReadTimeout\<close>: the platform reports it
  as a \<^verbatim>\<open>BlockingIOError\<close>, which is not of the class \<^verbatim>\<open>socket.timeout\<close>. And a read
  of a negative number of bytes lets the platform's \<^verbatim>\<open>ValueError\<close> out as it is.
\<close>

theorem zero_deadline_and_raw_error_counterexample:
  "read slow_peer stream1 1024 deadlines0 slow_world =
     Some (Raised (Semantic ReadError (OSError (Errno 11))),
           \<lparr>env = Some 0, held = {}, next_lock = 2,
            trace = [Acquire 0, Settimeout 0 (Some 0) (Inr ()),
                     Recv 0 1024 (Inl (OSError (Errno 11))), Release 0]\<rparr>) \<and>
   dict_get deadlines0 ''read'' = Some 0 \<and>
   read sim_transport stream1 (- 1) Map.empty world1 =
     Some (Raised (Raw ValueError),
           world1\<lparr>trace := [Acquire 0, Settimeout 0 None (Inr ()),
                            Recv 0 (- 1) (Inl ValueError), Release 0]\<rparr>)"
  using run_read_zero_deadline run_read_negative_size
  by (simp add: dict_get_def deadlines0_def)

subsection \<open>Opening\<close>

lemma open_success_encrypted:
  assumes "open_post hostname port (Some c) t w (Inr st, w')"
  shows "\<exists>h host. decode_ascii hostname = Inr host \<and>
           new_events w w' =
             [Socket (Inr h), Settimeout h t (Inr ()), Connect h host port (Inr ()),
              WrapSocket c h host (Inr (sock st)),
              NewLock (read_lock st), NewLock (write_lock st)] \<and>
           read_lock st = next_lock w \<and> write_lock st = Suc (next_lock w) \<and>
           read_lock st \<notin> held w' \<and> write_lock st \<notin> held w' \<and>
           next_lock w' = Suc (Suc (next_lock w))"
  using assms unfolding open_post_def new_events_def
  by (elim case_prodE exE conjE disjE) auto

subsection \<open>C8: opening with an encryption context\<close>

text \<open>
  C8. When \<open>open\<close> is given an encryption context and returns a stream, it has made
  exactly these calls, in this order: the socket, its connect deadline, the connection to
  the decoded host and the port, and the handshake on that same, connected handle with the
  decoded host as the server name. No deadline is set between the connection and the
  handshake, so the handshake runs under the connect deadline. The stream holds the handle
  the handshake returned and two locks made for it just then: the next two unused
  identifiers, different from each other, and neither of them held.
\<close>

theorem encrypted_open_wraps_connected_handle:
  assumes "open_tcp_stream T hostname port (Some c) timeout w = Some (Inr st, w')"
  shows "\<exists>h host. decode_ascii hostname = Inr host \<and>
           new_events w w' =
             [Socket (Inr h), Settimeout h (dict_get timeout ''connect'') (Inr ()),
              Connect h host port (Inr ()),
              WrapSocket c h host (Inr (sock st)),
              NewLock (read_lock st), NewLock (write_lock st)] \<and>
           read_lock st = next_lock w \<and> write_lock st = Suc (next_lock w) \<and>
           read_lock st \<notin> held w' \<and> write_lock st \<notin> held w' \<and>
           next_lock w' = Suc (Suc (next_lock w))"
proof -
  from open_tcp_stream_Some[OF assms] obtain r0 where
    post: "open_post hostname port (Some c) (dict_get timeout ''connect'') w (r0, w')"
    and r: "Inr st = (case r0 of
                   Inl e \<Rightarrow> Inl (remap [(socket_timeout, ConnectTimeout),
                                        (socket_error, ConnectError)] e)
                 | Inr v \<Rightarrow> Inr v)"
    by auto
  from r have "r0 = Inr st" by (cases r0) auto
  with post show ?thesis by (auto dest: open_success_encrypted)
qed

lemma run_open_tls:
  "open_tcp_stream sim_transport ''localhost'' 443 (Some 7) deadlines1 world1 =
     Some (Inr \<lparr>sock = 2, read_lock = 2, write_lock = 3\<rparr>,
           world1\<lparr>env := sim1\<lparr>sim_next := 3, sim_open := {0, 2}\<rparr>, next_lock := 4,
                  trace := [Socket (Inr 1), Settimeout 1 (Some 5) (Inr ()),
                            Connect 1 ''localhost'' 443 (Inr ()),
                            WrapSocket 7 1 ''localhost'' (Inr 2), NewLock 2, NewLock 3]\<rparr>)"
  by (simp add: run_defs deadlines1_def) auto

text \<open>Opening port 443 of localhost with the context 7.\<close>

theorem encrypted_open_wraps_connected_handle_witness:
  "open_tcp_stream sim_transport ''localhost'' 443 (Some 7) deadlines1 world1 =
     Some (Inr \<lparr>sock = 2, read_lock = 2, write_lock = 3\<rparr>,
           world1\<lparr>env := sim1\<lparr>sim_next := 3, sim_open := {0, 2}\<rparr>, next_lock := 4,
                  trace := [Socket (Inr 1), Settimeout 1 (Some 5) (Inr ()),
                            Connect 1 ''localhost'' 443 (Inr ()),
                            WrapSocket 7 1 ''localhost'' (Inr 2), NewLock 2, NewLock 3]\<rparr>) \<and>
   decode_ascii ''localhost'' = Inr ''localhost'' \<and>
   dict_get deadlines1 ''connect'' = Some 5 \<and> next_lock world1 = 2 \<and> held world1 = {}"
  using encrypted_open_wraps_connected_handle[OF run_open_tls] run_open_tls
  by (simp add: world1_def decode_ascii_def dict_get_def deadlines1_def)

lemma open_post_hosts:
  assumes "open_post hostname port ssl_context t w (r0, w')"
  shows "(\<forall>host\<in>set (host_args (new_events w w')). decode_ascii hostname = Inr host) \<and>
         (decode_ascii hostname = Inl UnicodeDecodeError \<and> failures (new_events w w') = [] \<longrightarrow>
            r0 = Inl (Raw UnicodeDecodeError) \<and> host_args (new_events w w') = [])"
  using assms unfolding open_post_def new_events_def
  by (elim case_prodE exE conjE disjE) (simp_all add: failures_simps)

subsection \<open>C10: the host name is decoded as ASCII\<close>

text \<open>
  C10. Every host name that \<open>open\<close> passes to the platform, to connect and again to the
  handshake, is the ASCII decoding of the host bytes. For host bytes that are not all below
  128, and provided the two platform calls that come before the decoding (making the
  socket, setting its deadline) did not fail, \<open>open\<close> fails with the decoding error
  itself: it is not a transport failure, the exception map leaves it alone, it is none of
  the seven kinds, and no connection was attempted.
\<close>

theorem host_is_decoded_as_ascii:
  assumes "open_tcp_stream T hostname port ssl_context timeout w = Some (r, w')"
  shows "(\<forall>host\<in>set (host_args (new_events w w')). decode_ascii hostname = Inr host) \<and>
         (\<not> list_all (\<lambda>c. of_char c < (128::nat)) hostname \<and>
          failures (new_events w w') = [] \<longrightarrow>
            r = Inl (Raw UnicodeDecodeError) \<and> host_args (new_events w w') = [] \<and>
            (\<forall>k x. r \<noteq> Inl (Semantic k x)))"
proof -
  from open_tcp_stream_Some[OF assms] obtain r0 where
    post: "open_post hostname port ssl_context (dict_get timeout ''connect'') w (r0, w')"
    and r: "r = (case r0 of
                   Inl e \<Rightarrow> Inl (remap [(socket_timeout, ConnectTimeout),
                                        (socket_error, ConnectError)] e)
                 | Inr v \<Rightarrow> Inr v)"
    by auto
  have d: "\<not> list_all (\<lambda>c. of_char c < (128::nat)) hostname \<Longrightarrow>
             decode_ascii hostname = Inl UnicodeDecodeError"
    by (simp add: decode_ascii_def)
  from open_post_hosts[OF post] d r show ?thesis by auto
qed

lemma run_open_bad_host:
  "open_tcp_stream sim_transport [CHR 0xE9] 443 (Some 7) deadlines1 world1 =
     Some (Inl (Raw UnicodeDecodeError),
           world1\<lparr>env := sim1\<lparr>sim_next := 2, sim_open := {0, 1}\<rparr>,
                  trace := [Socket (Inr 1), Settimeout 1 (Some 5) (Inr ())]\<rparr>)"
  by (simp add: run_defs deadlines1_def insert_commute)

text \<open>A host name with the byte E9, and the trace of the successful open above.\<close>

theorem host_is_decoded_as_ascii_witness:
  "open_tcp_stream sim_transport [CHR 0xE9] 443 (Some 7) deadlines1 world1 =
     Some (Inl (Raw UnicodeDecodeError),
           world1\<lparr>env := sim1\<lparr>sim_next := 2, sim_open := {0, 1}\<rparr>,
                  trace := [Socket (Inr 1), Settimeout 1 (Some 5) (Inr ())]\<rparr>) \<and>
   \<not> list_all (\<lambda>c. of_char c < (128::nat)) [CHR 0xE9] \<and>
   failures [Socket (Inr 1), Settimeout 1 (Some 5) (Inr ())] = [] \<and>
   host_args [Socket (Inr 1), Settimeout 1 (Some 5) (Inr ()),
              Connect 1 ''localhost'' 443 (Inr ()),
              WrapSocket 7 1 ''localhost'' (Inr 2), NewLock 2, NewLock 3] =
     [''localhost'', ''localhost''] \<and>
   decode_ascii ''localhost'' = Inr ''localhost''"
  using host_is_decoded_as_ascii[OF run_open_bad_host] host_is_decoded_as_ascii[OF run_open_tls]
    run_open_bad_host
  by (simp add: new_events_def world1_def failures_simps decode_ascii_def)

lemma open_post_failure:
  assumes "open_post hostname port ssl_context t w (Inl e, w')"
  shows "filter is_lock_event (new_events w w') = [] \<and>
         filter is_close (new_events w w') = [] \<and>
         next_lock w' = next_lock w \<and> held w' = held w"
  using assms unfolding open_post_def new_events_def
  by (elim case_prodE exE conjE disjE) simp_all

subsection \<open>C3: a failed open\<close>

text \<open>
  C3, as amended. When \<open>open\<close> fails, at whatever step, it raises and no stream is
  returned or even constructed: no lock was made and the locks are as they were. The code
  makes no call of \<^verbatim>\<open>close\<close> on the socket it created; it only drops its reference to
  it.
\<close>

theorem failed_open_builds_no_stream:
  assumes "open_tcp_stream T hostname port ssl_context timeout w = Some (Inl e, w')"
  shows "filter is_lock_event (new_events w w') = [] \<and>
         filter is_close (new_events w w') = [] \<and>
         next_lock w' = next_lock w \<and> held w' = held w"
proof -
  from open_tcp_stream_Some[OF assms] obtain r0 where
    post: "open_post hostname port ssl_context (dict_get timeout ''connect'') w (r0, w')"
    and r: "Inl e = (case r0 of
                   Inl e \<Rightarrow> Inl (remap [(socket_timeout, ConnectTimeout),
                                        (socket_error, ConnectError)] e)
                 | Inr v \<Rightarrow> Inr v)"
    by auto
  from r obtain e0 where "r0 = Inl e0" by (cases r0) auto
  with post show ?thesis by (auto dest: open_post_failure)
qed

lemma run_open_refused:
  "open_tcp_stream sim_transport ''localhost'' 80 None Map.empty refusing0 =
     Some (Inl (Semantic ConnectError (OSError ECONNREFUSED)), refused0)"
  by (simp add: run_defs refused0_def)

text \<open>A refused connection.\<close>

theorem failed_open_builds_no_stream_witness:
  "open_tcp_stream sim_transport ''localhost'' 80 None Map.empty refusing0 =
     Some (Inl (Semantic ConnectError (OSError ECONNREFUSED)), refused0) \<and>
   filter is_lock_event (trace refused0) = [] \<and> filter is_close (trace refused0) = [] \<and>
   next_lock refused0 = next_lock refusing0 \<and> held refused0 = held refusing0"
  using failed_open_builds_no_stream[OF run_open_refused] run_open_refused
  by (simp add: new_events_def refusing0_def refused0_def)

text \<open>
  The claim as stated, that the handle is closed rather than left open, fails: after the
  refused connection the socket 0 that \<open>open\<close> created is still open, and the trace holds
  no call of \<^verbatim>\<open>close\<close>.
\<close>

theorem failed_open_leaves_handle_open_counterexample:
  "open_tcp_stream sim_transport ''localhost'' 80 None Map.empty refusing0 =
     Some (Inl (Semantic ConnectError (OSError ECONNREFUSED)), refused0) \<and>
   hd (trace refused0) = Socket (Inr 0) \<and>
   0 \<in> sim_open (env refused0) \<and>
   \<not> list_ex is_close (trace refused0)"
  using run_open_refused by (simp add: refused0_def)

subsection \<open>After closing\<close>






subsection \<open>C4: reading and writing after close\<close>



lemma run_close1: "close sim_transport stream1 world1 = Some (Returned (), closed1)"
  by (simp add: run_defs)






subsection \<open>C5: the dropped-connection probe\<close>

text \<open>
  C5, as amended. \<open>is_connection_dropped\<close> takes no lock and so waits for none (the locks
  are as before, whoever holds them), and makes exactly one call of the platform: a
  \<^verbatim>\<open>select\<close> on the stream's handle with the timeout 0, which consumes nothing. When that
  call returns, the result is true exactly if the list of readable handles is not empty.
  When that call raises, as it does for a closed handle, the probe raises the same
  exception: there is no exception map around it.
\<close>

theorem probe_is_one_select:
  assumes "is_connection_dropped T self w = (r, w')"
  shows "held w' = held w \<and> next_lock w' = next_lock w \<and>
         (\<exists>x. new_events w w' = [Select [sock self] 0 x] \<and>
              t_select T [sock self] 0 (env w) = (x, env w') \<and>
              r = (case x of Inl e \<Rightarrow> Inl (Raw e) | Inr rready \<Rightarrow> Inr (rready \<noteq> [])))"
proof -
  obtain r0 w0 where s: "select_select T [sock self] 0 w = (r0, w0)"
    by (cases "select_select T [sock self] 0 w")
  from select_select_world[OF s] obtain x where
    f: "held w0 = held w" "next_lock w0 = next_lock w"
    and tr: "trace w0 = trace w @ [Select [sock self] 0 x]"
    and l: "lift x = r0" and t: "t_select T [sock self] 0 (env w) = (x, env w0)"
    by auto
  from assms s have rw: "w' = w0"
    "r = (case r0 of Inl e \<Rightarrow> Inl e | Inr rready \<Rightarrow> Inr (rready \<noteq> []))"
    by (auto simp: is_connection_dropped_def split: sum.splits)
  have "r = (case x of Inl e \<Rightarrow> Inl (Raw e) | Inr rready \<Rightarrow> Inr (rready \<noteq> []))"
    using rw(2) l by (cases x) (auto simp: lift_def)
  with f t new_events_append[OF tr] show ?thesis by (simp add: rw(1))
qed

lemma run_probe_reader_busy:
  "is_connection_dropped sim_transport stream1 reader_busy1 =
     (Inr False, reader_busy1\<lparr>trace := [Select [0] 0 (Inr [])]\<rparr>)"
  by (simp add: run_defs)

text \<open>The probe while another thread holds the read lock.\<close>

theorem probe_is_one_select_witness:
  "is_connection_dropped sim_transport stream1 reader_busy1 =
     (Inr False, reader_busy1\<lparr>trace := [Select [0] 0 (Inr [])]\<rparr>) \<and>
   read_lock stream1 \<in> held reader_busy1 \<and>
   held (reader_busy1\<lparr>trace := [Select [0] 0 (Inr [])]\<rparr>) = held reader_busy1 \<and>
   t_select sim_transport [0] 0 (env reader_busy1) = (Inr [], env reader_busy1)"
  using probe_is_one_select[OF run_probe_reader_busy] run_probe_reader_busy
  by (simp add: new_events_def reader_busy1_def stream1_def sim_transport_def sim_select_def
        sim1_def)

text \<open>
  The claim as stated, that the probe never fails in any state, is false after \<open>close\<close>:
  the descriptor of a closed socket is -1, which \<^verbatim>\<open>select\<close> rejects with
  \<^verbatim>\<open>ValueError\<close>, and the probe lets it through.
\<close>

theorem probe_after_close_fails_counterexample:
  "close sim_transport stream1 world1 = Some (Returned (), closed1) \<and>
   is_connection_dropped sim_transport stream1 closed1 =
     (Inl (Raw ValueError),
      closed1\<lparr>trace := [Acquire 1, Close 0 (Inr ()), Release 1,
                         Select [0] 0 (Inl ValueError)]\<rparr>)"
  using run_close1 by (simp add: run_defs)

end
